theory Spec2Isabelle
  imports Main
begin

section \<open>Python values, errors and dictionaries\<close>

text \<open>
  The development embeds class \<open>PTA\<close> of \<open>spider/pta/v2/pta.py\<close> and class
  \<open>Contest\<close> of \<open>type/contest.py\<close>. Python's leading underscore is not part of an
  Isabelle name, so \<open>_parse_groups\<close> is \<open>parse_groups\<close>, \<open>self._runs\<close> is the
  field \<open>runs\<close>, and so on. A raised exception is the left summand of a result.
\<close>

datatype error =
    RequestFailed string int
  | TransportError string
  | KeyError string
  | TypeError string
  | AttributeError string
  | ValueError string

text \<open>
  \<open>RequestFailed url status\<close> is the \<open>Exception\<close> raised at pta.py:56 for a status
  other than 200; \<open>TransportError\<close> stands for whatever aiohttp raises (timeout after
  \<open>kTimeOut\<close>, connection fault, a body that is not JSON). The others are Python's
  built-in exceptions, carrying the missing key or attribute.
\<close>

text \<open>
  A Python \<open>dict\<close> keeps insertion order: an association list with one entry per key.
  \<open>d[k] = v\<close> replaces the value in place when the key is present and appends the
  entry otherwise; \<open>d[k]\<close> is \<open>map_of d k\<close>, raising \<open>KeyError\<close> on \<open>None\<close>.
\<close>

fun dict_set :: "'k \<Rightarrow> 'v \<Rightarrow> ('k \<times> 'v) list \<Rightarrow> ('k \<times> 'v) list" where
  "dict_set k v [] = [(k, v)]"
| "dict_set k v ((k', v') # d) =
     (if k' = k then (k, v) # d else (k', v') # dict_set k v d)"

text \<open>\<open>ord(s)\<close>: defined on strings of length one, a \<open>TypeError\<close> otherwise.\<close>

fun py_ord :: "string \<Rightarrow> error + int" where
  "py_ord [c] = Inr (of_char c)"
| "py_ord s = Inl (TypeError ''ord() expected a character'')"

section \<open>The remote payloads\<close>

text \<open>
  The JSON bodies are typed by the keys the code reads from them: every record carries
  the keys the code subscripts it with, identifiers, names, labels and timestamps are
  strings, and the flags are booleans, so that \<open>str(...)\<close> and \<open>bool(...)\<close> around
  them are the identity. A body of another shape is outside the model. A field whose
  value the code reads and never uses is a \<open>scalar\<close>. Strings are \<open>string\<close>: text
  of code points below 256.
\<close>

datatype scalar = JNull | JBool bool | JInt int | JStr string

text \<open>A record of \<open>data["submissions"]\<close> (read at pta.py:161-165).\<close>

record submission_record =
  status :: string
  problemSetProblemId :: string
  submitAt :: string
  submissionId :: string

record competition_basic_info =
  startAt :: string
  endAt :: string

text \<open>A value of the map \<open>problemInfoByProblemSetProblemId\<close> (pta.py:92-93).\<close>

record problem_info =
  label :: string
  balloonRgb :: string

text \<open>
  \<open>r['teamInfo']\<close>. \<open>_parse_teams\<close> reads the team's id from \<open>r['teamFid']\<close>
  (pta.py:108), \<open>_make_fake_runs\<close> from \<open>r['teamInfo']['teamFid']\<close> (pta.py:139); the
  second key is optional here, and its absence raises \<open>KeyError\<close> as the lookup does.
\<close>

record team_info =
  teamName :: string
  memberNames :: "string list"
  schoolName :: string
  excluded :: bool
  girlMajor :: bool
  groupFids :: "string list"
  teamInfo_teamFid :: "string option"

text \<open>A value of \<open>r['problemSubmissionDetailsByProblemSetProblemId']\<close> (pta.py:141-144).\<close>

record problem_submission_details =
  details_status :: scalar
  validSubmitCount :: scalar
  acceptTime :: scalar
  submitCountSnapshot :: scalar

record ranking =
  teamFid :: string
  teamInfo :: team_info
  problemSubmissionDetailsByProblemSetProblemId :: "(string \<times> problem_submission_details) list"

record xcpc_rankings =
  problemInfoByProblemSetProblemId :: "(string \<times> problem_info) list"
  rankings :: "ranking list"

record rank_snapshot =
  competitionBasicInfo :: competition_basic_info
  xcpcRankings :: xcpc_rankings

text \<open>
  The three bodies the remote API answers with: \<open>{"groups": [...]}\<close>, whose group
  records are dictionaries (the code writes into them, pta.py:74), the rank snapshot,
  and \<open>{"submissions": [...]}\<close>. Reading a key of one body from another raises
  \<open>KeyError\<close>.
\<close>

datatype payload =
    GroupsPayload "(string \<times> string) list list"
  | RankPayload rank_snapshot
  | SubmissionsPayload "submission_record list"

section \<open>The domain model\<close>

text \<open>
  Modelled from the spec: \<open>Color\<close>, \<open>Team\<close>, \<open>Teams\<close>, \<open>Submission\<close>, \<open>Submissions\<close>
  and the verdict constants of \<open>constants\<close> are imported from the package and not
  among the sources. \<open>Color\<close> is the foreground/background pair, built with the
  keywords \<open>background_color\<close> and \<open>color\<close> (pta.py:96, contest.py:48); \<open>Team\<close> and
  \<open>Submission\<close> hold the fields pta.py assigns; \<open>Teams\<close> is the mapping of team id to
  \<open>Team\<close> in insertion order; \<open>Submissions\<close> is the ordered sequence of \<open>Submission\<close>;
  a verdict is accepted, wrong-answer or unknown.
\<close>

record Color =
  background_color :: string
  color :: string

datatype verdict = RESULT_ACCEPTED | RESULT_WRONG_ANSWER | RESULT_UNKNOWN

record Team =
  team_id :: string
  team_name :: string
  team_organization :: string
  team_members :: "string list"
  team_group :: "string list"
  team_girl :: bool

record Submission =
  run_team_id :: string
  run_status :: verdict
  run_problem_id :: int
  run_timestamp :: int
  run_submission_id :: string

text \<open>
  Class \<open>Contest\<close> (contest.py:7-38), with the fields pta.py reads or writes and their
  neighbours; \<open>status_time_display\<close>, \<open>medal\<close> and \<open>logo\<close> are never touched by
  pta.py. \<open>group\<close> is \<open>None\<close> until \<open>_parse_groups\<close> assigns a dictionary.
\<close>

record Contest =
  contest_name :: string
  start_time :: int
  end_time :: int
  frozen_time :: int
  penalty :: int
  problem_quantity :: int
  problem_id :: "string list"
  contest_group :: "(string \<times> string) list option"
  organization :: string
  balloon_color :: "Color list"

text \<open>The object state of \<open>PTA\<close> (pta.py:27-33).\<close>

record PTA =
  contest :: Contest
  contest_id :: string
  teams :: "(string \<times> Team) list"
  runs :: "Submission list"
  team_ids :: "string set"
  problem_ids :: "(string \<times> int) list"

definition PTA_init :: "Contest \<Rightarrow> string \<Rightarrow> PTA" where
  "PTA_init c cid =
     \<lparr>contest = c, contest_id = cid, teams = [], runs = [], team_ids = {},
      problem_ids = []\<rparr>"

definition kTimeOut :: nat where "kTimeOut = 10"
definition kRetryTimes :: nat where "kRetryTimes = 5"
definition kAcScore :: nat where "kAcScore = 300"

section \<open>The world outside: the remote API, the clock and the log\<close>

text \<open>
  What a run does to the outside is a trace of events: an HTTP GET of a URL, a pause
  of \<open>asyncio.sleep\<close>, a warning and an info line of the logger. The remote service is
  a function of the trace so far and the URL, so that it may answer the same URL
  differently on a later attempt, and may depend on the pauses taken.
\<close>

datatype event =
    is_Get: Get string
  | Sleep nat
  | LogWarning nat string
  | LogInfo nat

type_synonym world = "event list"

datatype http_outcome =
    Fault error
  | Response int "error + payload"

text \<open>
  \<open>Fault e\<close>: \<open>session.get\<close> raises \<open>e\<close>. \<open>Response st body\<close>: the response has status
  \<open>st\<close> and \<open>resp.json()\<close> gives \<open>body\<close> (an error when the body does not decode).
\<close>

type_synonym remote = "world \<Rightarrow> string \<Rightarrow> http_outcome"

subsection \<open>Transport (pta.py:35-67)\<close>

text \<open>The URL of pta.py:36.\<close>

definition request_url :: "PTA \<Rightarrow> string \<Rightarrow> string" where
  "request_url self path = ''https://pintia.cn/api/competitions/'' @ contest_id self @ ''/'' @ path"

definition fetch_rank_by_uri ::
  "remote \<Rightarrow> PTA \<Rightarrow> string \<Rightarrow> world \<Rightarrow> (error + payload) \<times> world" where
  "fetch_rank_by_uri rmt self path w =
     (let url = request_url self path
      in case rmt w url of
           Fault e \<Rightarrow> (Inl e, w @ [Get url])
         | Response st body \<Rightarrow>
             if st \<noteq> 200 then (Inl (RequestFailed url st), w @ [Get url])
             else (body, w @ [Get url]))"

definition fetch_rank :: "remote \<Rightarrow> PTA \<Rightarrow> world \<Rightarrow> (error + payload) \<times> world" where
  "fetch_rank rmt self w = fetch_rank_by_uri rmt self ''xcpc-rankings'' w"

definition fetch_groups :: "remote \<Rightarrow> PTA \<Rightarrow> world \<Rightarrow> (error + payload) \<times> world" where
  "fetch_groups rmt self w = fetch_rank_by_uri rmt self ''groups'' w"

definition fetch_team_submissions ::
  "remote \<Rightarrow> PTA \<Rightarrow> string \<Rightarrow> world \<Rightarrow> (error + payload) \<times> world" where
  "fetch_team_submissions rmt self tid w =
     fetch_rank_by_uri rmt self (''xcpc-rankings-team-submissions?team_fid='' @ tid) w"

section \<open>The payload parsers\<close>

subsection \<open>\<open>_parse_groups\<close> (pta.py:69-75)\<close>

text \<open>
  The loop variable is named \<open>group\<close>, as the dictionary initialised on the line
  before it: every iteration rebinds \<open>group\<close> to the group record at hand, and
  \<open>group[fid] = name\<close> writes into that record. The first argument of the loop is the
  binding of \<open>group\<close> on entry (\<open>grp\<close>), which an iteration drops.
\<close>

fun parse_groups_loop ::
  "(string \<times> string) list \<Rightarrow> (string \<times> string) list list \<Rightarrow> error + (string \<times> string) list" where
  "parse_groups_loop grp [] = Inr grp"
| "parse_groups_loop grp (g # rest) =
     (case map_of g ''name'' of
        None \<Rightarrow> Inl (KeyError ''name'')
      | Some name \<Rightarrow>
          (case map_of g ''fid'' of
             None \<Rightarrow> Inl (KeyError ''fid'')
           | Some fid \<Rightarrow> parse_groups_loop (dict_set fid name g) rest))"

definition parse_groups :: "payload \<Rightarrow> PTA \<Rightarrow> (error + unit) \<times> PTA" where
  "parse_groups data self =
     (case data of
        GroupsPayload gs \<Rightarrow>
          (case parse_groups_loop [] gs of
             Inl e \<Rightarrow> (Inl e, self)
           | Inr grp \<Rightarrow>
               (Inr (), self\<lparr>contest := (contest self)\<lparr>contest_group := Some grp\<rparr>\<rparr>))
      | _ \<Rightarrow> (Inl (KeyError ''groups''), self))"

subsection \<open>\<open>_parse_contest\<close> (pta.py:77-99)\<close>

text \<open>
  \<open>utils.get_timestamp_from_iso8601\<close> is not among the sources: it is the parameter
  \<open>ts\<close>, a function from the ISO-8601 text to epoch seconds that may raise.

  \<open>contest.append_balloon_color(...)\<close> (pta.py:95) is looked up on the contest object
  the caller handed to \<open>PTA\<close>; the model takes the method as the parameter \<open>abc\<close>.
  Class \<open>Contest\<close> of contest.py defines \<open>__init__\<close>, \<open>fill_problem_id\<close>,
  \<open>fill_balloon_color\<close> and the properties \<open>__dict__\<close> and \<open>__json__\<close>, and no
  \<open>append_balloon_color\<close>: on an instance of it the lookup raises \<open>AttributeError\<close>,
  which is \<open>Contest_append_balloon_color\<close>.
\<close>

type_synonym balloon_method = "Contest \<Rightarrow> Color \<Rightarrow> error + Contest"

definition Contest_append_balloon_color :: balloon_method where
  "Contest_append_balloon_color c col = Inl (AttributeError ''append_balloon_color'')"

fun parse_contest_loop ::
  "balloon_method \<Rightarrow> Contest \<Rightarrow> (string \<times> int) list \<Rightarrow> (string \<times> problem_info) list
     \<Rightarrow> (error + (string \<times> int) list) \<times> Contest" where
  "parse_contest_loop abc c pids [] = (Inr pids, c)"
| "parse_contest_loop abc c pids ((p_id, p) # rest) =
     (let lbl = label p;
          balloon_rgb = balloonRgb p;
          c1 = c\<lparr>problem_id := problem_id c @ [lbl]\<rparr>
      in case abc c1 \<lparr>background_color = balloon_rgb, color = ''#000''\<rparr> of
           Inl e \<Rightarrow> (Inl e, c1)
         | Inr c2 \<Rightarrow>
             (case py_ord lbl of
                Inl e \<Rightarrow> (Inl e, c2)
              | Inr n \<Rightarrow>
                  parse_contest_loop abc c2 (dict_set p_id (n - of_char CHR ''A'') pids) rest))"

definition parse_contest ::
  "balloon_method \<Rightarrow> (string \<Rightarrow> error + int) \<Rightarrow> payload \<Rightarrow> PTA \<Rightarrow> (error + unit) \<times> PTA" where
  "parse_contest abc ts data self =
     (case data of
        RankPayload rk \<Rightarrow>
          (case ts (startAt (competitionBasicInfo rk)) of
             Inl e \<Rightarrow> (Inl e, self)
           | Inr t0 \<Rightarrow>
               (let c0 = (contest self)\<lparr>start_time := t0\<rparr> in
                case ts (endAt (competitionBasicInfo rk)) of
                  Inl e \<Rightarrow> (Inl e, self\<lparr>contest := c0\<rparr>)
                | Inr t1 \<Rightarrow>
                    (let c1 = c0\<lparr>end_time := t1, problem_id := [], balloon_color := []\<rparr>
                     in case parse_contest_loop abc c1 []
                               (problemInfoByProblemSetProblemId (xcpcRankings rk)) of
                          (Inl e, c2) \<Rightarrow> (Inl e, self\<lparr>contest := c2\<rparr>)
                        | (Inr pids, c2) \<Rightarrow>
                            (Inr (),
                             self\<lparr>contest := c2\<lparr>problem_quantity := int (length (problem_id c2))\<rparr>,
                                  problem_ids := pids\<rparr>))))
      | _ \<Rightarrow> (Inl (KeyError ''competitionBasicInfo''), self))"

subsection \<open>\<open>_parse_teams\<close> (pta.py:101-131)\<close>

text \<open>
  \<open>str\<close> and \<open>bool\<close> are the identity on the typed fields. \<open>make_team\<close> is the
  \<open>Team\<close> of pta.py:120-126, from the fields read at pta.py:108-115; the collections
  are installed after the loop.
\<close>

definition make_team :: "ranking \<Rightarrow> Team" where
  "make_team r =
     \<lparr>team_id = teamFid r, team_name = teamName (teamInfo r),
      team_organization = schoolName (teamInfo r), team_members = memberNames (teamInfo r),
      team_group = groupFids (teamInfo r), team_girl = girlMajor (teamInfo r)\<rparr>"

fun parse_teams_loop ::
  "(string \<times> Team) list \<Rightarrow> string set \<Rightarrow> ranking list \<Rightarrow> (string \<times> Team) list \<times> string set" where
  "parse_teams_loop tms ids [] = (tms, ids)"
| "parse_teams_loop tms ids (r # rest) =
     (if excluded (teamInfo r) then parse_teams_loop tms ids rest
      else parse_teams_loop (dict_set (teamFid r) (make_team r) tms)
             (insert (teamFid r) ids) rest)"

definition parse_teams :: "payload \<Rightarrow> PTA \<Rightarrow> (error + unit) \<times> PTA" where
  "parse_teams data self =
     (case data of
        RankPayload rk \<Rightarrow>
          (case parse_teams_loop [] {} (rankings (xcpcRankings rk)) of
             (tms, ids) \<Rightarrow> (Inr (), self\<lparr>teams := tms, team_ids := ids\<rparr>))
      | _ \<Rightarrow> (Inl (KeyError ''xcpcRankings''), self))"

subsection \<open>\<open>_make_fake_runs\<close> (pta.py:133-147)\<close>

text \<open>
  The inner loop binds four fields of every per-problem summary and ends at the
  \<open>TODO\<close> comment; the accumulator \<open>runs\<close> is threaded through both loops as the
  source's variable is.
\<close>

fun make_fake_runs_details_loop ::
  "Submission list \<Rightarrow> (string \<times> problem_submission_details) list \<Rightarrow> Submission list" where
  "make_fake_runs_details_loop acc [] = acc"
| "make_fake_runs_details_loop acc ((p_id, st) # rest) =
     (let score = details_status st;
          valid_submit_count = validSubmitCount st;
          accept_time = acceptTime st;
          submit_count_snapshot = submitCountSnapshot st
      in make_fake_runs_details_loop acc rest)"

fun make_fake_runs_loop :: "Submission list \<Rightarrow> ranking list \<Rightarrow> error + Submission list" where
  "make_fake_runs_loop acc [] = Inr acc"
| "make_fake_runs_loop acc (r # rest) =
     (case teamInfo_teamFid (teamInfo r) of
        None \<Rightarrow> Inl (KeyError ''teamFid'')
      | Some tid \<Rightarrow>
          make_fake_runs_loop
            (make_fake_runs_details_loop acc (problemSubmissionDetailsByProblemSetProblemId r))
            rest)"

definition make_fake_runs :: "payload \<Rightarrow> PTA \<Rightarrow> (error + unit) \<times> PTA" where
  "make_fake_runs data self =
     (case data of
        RankPayload rk \<Rightarrow>
          (case make_fake_runs_loop [] (rankings (xcpcRankings rk)) of
             Inl e \<Rightarrow> (Inl e, self)
           | Inr acc \<Rightarrow> (Inr (), self\<lparr>runs := acc\<rparr>))
      | _ \<Rightarrow> (Inl (KeyError ''xcpcRankings''), self))"

subsection \<open>\<open>_parse_status\<close> and \<open>_parse_team_runs\<close> (pta.py:149-172)\<close>

definition parse_status :: "string \<Rightarrow> verdict" where
  "parse_status s =
     (if s = ''ACCEPTED'' then RESULT_ACCEPTED
      else if s = ''WRONG_ANSWER'' then RESULT_WRONG_ANSWER
      else RESULT_UNKNOWN)"

fun parse_team_runs_loop ::
  "(string \<Rightarrow> error + int) \<Rightarrow> (string \<times> int) list \<Rightarrow> string \<Rightarrow> Submission list
     \<Rightarrow> submission_record list \<Rightarrow> error + Submission list" where
  "parse_team_runs_loop ts pids tid acc [] = Inr acc"
| "parse_team_runs_loop ts pids tid acc (submission # rest) =
     (let st = parse_status (status submission) in
      case map_of pids (problemSetProblemId submission) of
        None \<Rightarrow> Inl (KeyError (problemSetProblemId submission))
      | Some pid \<Rightarrow>
          (case ts (submitAt submission) of
             Inl e \<Rightarrow> Inl e
           | Inr t \<Rightarrow>
               parse_team_runs_loop ts pids tid
                 (acc @ [\<lparr>run_team_id = tid, run_status = st, run_problem_id = pid,
                          run_timestamp = t, run_submission_id = submissionId submission\<rparr>])
                 rest))"

definition parse_team_runs ::
  "(string \<Rightarrow> error + int) \<Rightarrow> PTA \<Rightarrow> payload \<Rightarrow> string \<Rightarrow> error + Submission list" where
  "parse_team_runs ts self data tid =
     (case data of
        SubmissionsPayload submissions \<Rightarrow>
          parse_team_runs_loop ts (problem_ids self) tid [] submissions
      | _ \<Rightarrow> Inl (KeyError ''submissions''))"

section \<open>Per-team fetch-and-parse (pta.py:174-183)\<close>

text \<open>
  The \<open>for\<close> loop over \<open>range(kRetryTimes)\<close>. Its body returns from the \<open>try\<close> or
  raises from the \<open>except\<close> handler (\<open>raise e\<close>), so no path of an iteration reaches
  the next one: the equation for \<open>i # later\<close> makes no recursive call. A loop that
  runs out (an empty range) falls off the end of the function, which returns \<open>None\<close>.
\<close>

fun fetch_and_parse_attempts ::
  "(string \<Rightarrow> error + int) \<Rightarrow> remote \<Rightarrow> PTA \<Rightarrow> string \<Rightarrow> nat list \<Rightarrow> world
     \<Rightarrow> (error + Submission list option) \<times> world" where
  "fetch_and_parse_attempts ts rmt self tid [] w = (Inr None, w)"
| "fetch_and_parse_attempts ts rmt self tid (i # later) w =
     (let w1 = (if i > 0 then w @ [LogWarning i tid] else w) in
      case fetch_team_submissions rmt self tid w1 of
        (Inl e, w2) \<Rightarrow> (Inl e, w2)
      | (Inr data, w2) \<Rightarrow>
          (case parse_team_runs ts self data tid of
             Inl e \<Rightarrow> (Inl e, w2)
           | Inr rs \<Rightarrow> (Inr (Some rs), w2)))"

definition fetch_and_parse_team_runs ::
  "(string \<Rightarrow> error + int) \<Rightarrow> remote \<Rightarrow> PTA \<Rightarrow> string \<Rightarrow> world
     \<Rightarrow> (error + Submission list option) \<times> world" where
  "fetch_and_parse_team_runs ts rmt self tid w =
     fetch_and_parse_attempts ts rmt self tid [0..<kRetryTimes] w"

section \<open>The batch orchestrator (pta.py:185-214)\<close>

text \<open>
  \<open>asyncio.gather\<close> starts every coroutine of the batch; when all of them return it
  returns their results in argument order, and when one raises it raises that
  failure, the other requests having been started all the same. \<open>run_tasks\<close> runs
  every coroutine of the batch, in argument order, and keeps each outcome; \<open>gather\<close>
  gives the results or the failure. The model has no timing inside a batch: the
  requests are issued in argument order, and of several failures in one batch it
  raises the first in argument order where the source raises the first in time.
\<close>

fun run_tasks ::
  "(string \<Rightarrow> error + int) \<Rightarrow> remote \<Rightarrow> PTA \<Rightarrow> Team list \<Rightarrow> world
     \<Rightarrow> (error + Submission list option) list \<times> world" where
  "run_tasks ts rmt self [] w = ([], w)"
| "run_tasks ts rmt self (team # rest) w =
     (case fetch_and_parse_team_runs ts rmt self (team_id team) w of
        (r, w1) \<Rightarrow>
          (case run_tasks ts rmt self rest w1 of
             (rs, w2) \<Rightarrow> (r # rs, w2)))"

fun gather :: "(error + 'a) list \<Rightarrow> error + 'a list" where
  "gather [] = Inr []"
| "gather (Inl e # rs) = Inl e"
| "gather (Inr x # rs) =
     (case gather rs of
        Inl e \<Rightarrow> Inl e
      | Inr xs \<Rightarrow> Inr (x # xs))"

definition process_team_runs_batch ::
  "(string \<Rightarrow> error + int) \<Rightarrow> remote \<Rightarrow> PTA \<Rightarrow> Team list \<Rightarrow> world
     \<Rightarrow> (error + Submission list option list) \<times> world" where
  "process_team_runs_batch ts rmt self team_batch w =
     (case run_tasks ts rmt self team_batch w of
        (rs, w') \<Rightarrow> (gather rs, w'))"

text \<open>
  \<open>for team_run in team_runs_batch: all_runs.extend(team_run)\<close>; extending by \<open>None\<close>
  raises \<open>TypeError\<close>.
\<close>

fun extend_all :: "Submission list \<Rightarrow> Submission list option list \<Rightarrow> error + Submission list" where
  "extend_all all_runs [] = Inr all_runs"
| "extend_all all_runs (None # rest) = Inl (TypeError ''NoneType object is not iterable'')"
| "extend_all all_runs (Some team_run # rest) = extend_all (all_runs @ team_run) rest"

definition batch_size :: nat where "batch_size = 100"

text \<open>
  The loop \<open>for i in range(0, len(teams), batch_size)\<close> of pta.py:205-212, with the
  loop index \<open>i\<close> and the accumulator \<open>all_runs\<close>; \<open>islice(teams, i, i + batch_size)\<close>
  is \<open>take batch_size (drop i teams)\<close>.
\<close>

function parse_batches ::
  "(string \<Rightarrow> error + int) \<Rightarrow> remote \<Rightarrow> PTA \<Rightarrow> Team list \<Rightarrow> nat \<Rightarrow> Submission list \<Rightarrow> world
     \<Rightarrow> (error + Submission list) \<times> world" where
  "parse_batches ts rmt self tms i all_runs w =
     (if i < length tms then
        (let w1 = (if i > 0 then w @ [Sleep 1] else w);
             team_batch = take batch_size (drop i tms)
         in case process_team_runs_batch ts rmt self team_batch w1 of
              (Inl e, w2) \<Rightarrow> (Inl e, w2)
            | (Inr team_runs_batch, w2) \<Rightarrow>
                (case extend_all all_runs team_runs_batch of
                   Inl e \<Rightarrow> (Inl e, w2)
                 | Inr all_runs' \<Rightarrow>
                     parse_batches ts rmt self tms (i + batch_size) all_runs'
                       (w2 @ [LogInfo (i + length team_batch)])))
      else (Inr all_runs, w))"
  by pat_completeness auto
termination
  by (relation "measure (\<lambda>(ts, rmt, self, tms, i, all_runs, w). length tms - i)")
     (auto simp: batch_size_def)

declare parse_batches.simps [simp del]

text \<open>
  The \<open>fetch_runs\<close> branch of \<open>_parse\<close> (pta.py:202-214): the sweep over all teams,
  the sort by timestamp (\<open>list.sort\<close> is stable, as \<open>sort_key\<close> is) and the
  assignment to \<open>self._runs\<close>, which a failed sweep never reaches.
\<close>

definition parse_fetch_runs ::
  "(string \<Rightarrow> error + int) \<Rightarrow> remote \<Rightarrow> world \<times> PTA \<Rightarrow> (error + unit) \<times> world \<times> PTA" where
  "parse_fetch_runs ts rmt ws =
     (case ws of
        (w, self) \<Rightarrow>
          (case parse_batches ts rmt self (map snd (teams self)) 0 [] w of
             (Inl e, w') \<Rightarrow> (Inl e, w', self)
           | (Inr all_runs, w') \<Rightarrow>
               (Inr (), w', self\<lparr>runs := sort_key run_timestamp all_runs\<rparr>)))"

section \<open>The pipeline driver (pta.py:190-217)\<close>

definition parse ::
  "balloon_method \<Rightarrow> (string \<Rightarrow> error + int) \<Rightarrow> remote \<Rightarrow> bool \<Rightarrow> world \<times> PTA
     \<Rightarrow> (error + unit) \<times> world \<times> PTA" where
  "parse abc ts rmt fetch_runs ws =
     (case ws of
        (w, self) \<Rightarrow>
          (case fetch_groups rmt self w of
             (Inl e, w1) \<Rightarrow> (Inl e, w1, self)
           | (Inr groups, w1) \<Rightarrow>
               (case parse_groups groups self of
                  (Inl e, self1) \<Rightarrow> (Inl e, w1, self1)
                | (Inr u1, self1) \<Rightarrow>
                    (case fetch_rank rmt self1 w1 of
                       (Inl e, w2) \<Rightarrow> (Inl e, w2, self1)
                     | (Inr rnk, w2) \<Rightarrow>
                         (case parse_contest abc ts rnk self1 of
                            (Inl e, self2) \<Rightarrow> (Inl e, w2, self2)
                          | (Inr u2, self2) \<Rightarrow>
                              (case parse_teams rnk self2 of
                                 (Inl e, self3) \<Rightarrow> (Inl e, w2, self3)
                               | (Inr u3, self3) \<Rightarrow>
                                   if \<not> fetch_runs then
                                     (case make_fake_runs rnk self3 of
                                        (r, self4) \<Rightarrow> (r, w2, self4))
                                   else parse_fetch_runs ts rmt (w2, self3)))))))"

text \<open>
  \<open>asyncio.run(main, *, debug=None)\<close> of the standard library takes one positional
  argument, which must be a coroutine object: the value a call of an \<open>async def\<close>
  function returns. A call with another number of positional arguments raises
  \<open>TypeError\<close> before the body of \<open>asyncio.run\<close> is entered; one positional argument
  that is not a coroutine object raises \<open>ValueError\<close>. An argument is the bound
  method \<open>self._parse\<close> itself (\<open>CoroutineFunction\<close>, waiting for its \<open>fetch_runs\<close>),
  the coroutine object of a call of it (\<open>Coroutine\<close>), or a boolean.
\<close>

datatype pyarg =
    CoroutineFunction "bool \<Rightarrow> world \<times> PTA \<Rightarrow> (error + unit) \<times> world \<times> PTA"
  | Coroutine "world \<times> PTA \<Rightarrow> (error + unit) \<times> world \<times> PTA"
  | PyBool bool

fun asyncio_run :: "pyarg list \<Rightarrow> world \<times> PTA \<Rightarrow> (error + unit) \<times> world \<times> PTA" where
  "asyncio_run [Coroutine body] ws = body ws"
| "asyncio_run [other] ws = (Inl (ValueError ''a coroutine was expected''), ws)"
| "asyncio_run args ws = (Inl (TypeError ''run() takes 1 positional argument''), ws)"

definition run ::
  "balloon_method \<Rightarrow> (string \<Rightarrow> error + int) \<Rightarrow> remote \<Rightarrow> bool \<Rightarrow> world \<times> PTA
     \<Rightarrow> (error + unit) \<times> world \<times> PTA" where
  "run abc ts rmt fetch_runs ws =
     asyncio_run [CoroutineFunction (parse abc ts rmt), PyBool fetch_runs] ws"

section \<open>Notions the claims are stated with\<close>


text \<open>
  The words of the specification for the orchestrator, to compare the loop with: the
  consecutive batches of a team list (\<open>ceil(N / batch_size)\<close> of them), and what the
  \<open>k\<close>-th batch does to the outside: the pause, unless it is the first batch, one GET
  per team in order, and the progress line.
\<close>

definition batches :: "Team list \<Rightarrow> Team list list" where
  "batches tms =
     map (\<lambda>k. take batch_size (drop (k * batch_size) tms))
       [0..<(length tms + batch_size - 1) div batch_size]"

definition batch_events :: "PTA \<Rightarrow> nat \<Rightarrow> Team list \<Rightarrow> event list" where
  "batch_events self k b =
     (if k > 0 then [Sleep 1] else [])
     @ map (\<lambda>t. Get (request_url self (''xcpc-rankings-team-submissions?team_fid='' @ team_id t))) b
     @ [LogInfo (k * batch_size + length b)]"

text \<open>
  \<open>rs\<close> is a list \<open>_fetch_and_parse_team_runs\<close> returned for the team, at some point
  of a run.
\<close>

definition fetched_for ::
  "(string \<Rightarrow> error + int) \<Rightarrow> remote \<Rightarrow> PTA \<Rightarrow> Team \<Rightarrow> Submission list \<Rightarrow> bool" where
  "fetched_for ts rmt self team rs \<longleftrightarrow>
     (\<exists>w0 w1. fetch_and_parse_team_runs ts rmt self (team_id team) w0 = (Inr (Some rs), w1))"

section \<open>Example inputs\<close>

text \<open>\<open>Contest()\<close>: the defaults of \<open>Contest.__init__\<close> (contest.py:8-21).\<close>

definition Contest_init :: Contest where
  "Contest_init =
     \<lparr>contest_name = '''', start_time = 0, end_time = 0, frozen_time = 0, penalty = 0,
      problem_quantity = 0, problem_id = [], contest_group = None, organization = '''',
      balloon_color = []\<rparr>"

text \<open>
  A timestamp helper for the examples: defined on the three texts they use, a
  \<open>ValueError\<close> elsewhere.
\<close>

definition iso_example :: "string \<Rightarrow> error + int" where
  "iso_example s =
     (if s = ''1970-01-01T00:00:00Z'' then Inr 0
      else if s = ''1970-01-01T00:01:00Z'' then Inr 60
      else if s = ''1970-01-01T05:00:00Z'' then Inr 18000
      else Inl (ValueError s))"

text \<open>
  A remote that rejects the first request of a run with status 500 and answers every
  later one with status 200 and no submissions.
\<close>

definition flaky_once :: remote where
  "flaky_once w url =
     (if w = [] then Response 500 (Inr (SubmissionsPayload []))
      else Response 200 (Inr (SubmissionsPayload [])))"

text \<open>A rank snapshot with one problem, labelled \<open>A\<close>, and no team.\<close>

definition snapshot_one_problem :: rank_snapshot where
  "snapshot_one_problem =
     \<lparr>competitionBasicInfo =
        \<lparr>startAt = ''1970-01-01T00:00:00Z'', endAt = ''1970-01-01T05:00:00Z''\<rparr>,
      xcpcRankings =
        \<lparr>problemInfoByProblemSetProblemId =
           [(''p1'', \<lparr>label = ''A'', balloonRgb = ''#ff0000''\<rparr>)],
         rankings = []\<rparr>\<rparr>"

text \<open>
  A contest object whose class does define \<open>append_balloon_color\<close>, appending the
  colour to \<open>balloon_color\<close>.
\<close>

definition appending_balloon_color :: balloon_method where
  "appending_balloon_color c col = Inr (c\<lparr>balloon_color := balloon_color c @ [col]\<rparr>)"

text \<open>
  The scenario of the specification: problems \<open>A\<close>, \<open>B\<close>, \<open>C\<close>, the teams \<open>t1\<close> and
  \<open>t2\<close>, and an excluded team \<open>t3\<close>.
\<close>

definition example_ranking :: "string \<Rightarrow> string \<Rightarrow> bool \<Rightarrow> ranking" where
  "example_ranking tid nm ex =
     \<lparr>teamFid = tid,
      teamInfo = \<lparr>teamName = nm, memberNames = [], schoolName = ''School'', excluded = ex,
                  girlMajor = False, groupFids = [''g1''], teamInfo_teamFid = Some tid\<rparr>,
      problemSubmissionDetailsByProblemSetProblemId =
        [(''p1'', \<lparr>details_status = JInt 300, validSubmitCount = JInt 1,
                    acceptTime = JInt 60, submitCountSnapshot = JInt 1\<rparr>)]\<rparr>"

definition snapshot_abc :: rank_snapshot where
  "snapshot_abc =
     \<lparr>competitionBasicInfo =
        \<lparr>startAt = ''1970-01-01T00:00:00Z'', endAt = ''1970-01-01T05:00:00Z''\<rparr>,
      xcpcRankings =
        \<lparr>problemInfoByProblemSetProblemId =
           [(''p1'', \<lparr>label = ''A'', balloonRgb = ''#ff0000''\<rparr>),
            (''p2'', \<lparr>label = ''B'', balloonRgb = ''#00ff00''\<rparr>),
            (''p3'', \<lparr>label = ''C'', balloonRgb = ''#0000ff''\<rparr>)],
         rankings =
           [example_ranking ''t1'' ''One'' False, example_ranking ''t3'' ''Three'' True,
            example_ranking ''t2'' ''Two'' False]\<rparr>\<rparr>"

text \<open>
  A remote for contest \<open>42\<close> that serves one group, the snapshot above, two
  submissions of \<open>t1\<close> and two of \<open>t2\<close>; \<open>t1\<close>'s first and \<open>t2\<close>'s first carry the same
  timestamp.
\<close>

definition example_submission :: "string \<Rightarrow> string \<Rightarrow> string \<Rightarrow> string \<Rightarrow> submission_record" where
  "example_submission sid p v at =
     \<lparr>status = v, problemSetProblemId = p, submitAt = at, submissionId = sid\<rparr>"

definition example_remote :: remote where
  "example_remote w url =
     (if url = ''https://pintia.cn/api/competitions/42/groups''
      then Response 200 (Inr (GroupsPayload [[(''fid'', ''g1''), (''name'', ''Official'')]]))
      else if url = ''https://pintia.cn/api/competitions/42/xcpc-rankings''
      then Response 200 (Inr (RankPayload snapshot_abc))
      else if url = ''https://pintia.cn/api/competitions/42/xcpc-rankings-team-submissions?team_fid=t1''
      then Response 200 (Inr (SubmissionsPayload
             [example_submission ''s1'' ''p1'' ''ACCEPTED'' ''1970-01-01T00:01:00Z'',
              example_submission ''s2'' ''p2'' ''WRONG_ANSWER'' ''1970-01-01T05:00:00Z'']))
      else if url = ''https://pintia.cn/api/competitions/42/xcpc-rankings-team-submissions?team_fid=t2''
      then Response 200 (Inr (SubmissionsPayload
             [example_submission ''s3'' ''p1'' ''WRONG_ANSWER'' ''1970-01-01T00:01:00Z'',
              example_submission ''s4'' ''p3'' ''PENDING'' ''1970-01-01T00:00:00Z'']))
      else Response 404 (Inl (TransportError ''not JSON'')))"

text \<open>A rank snapshot whose only problem, \<open>p1\<close>, is labelled \<open>B\<close>.\<close>

definition snapshot_b :: rank_snapshot where
  "snapshot_b =
     \<lparr>competitionBasicInfo =
        \<lparr>startAt = ''1970-01-01T00:00:00Z'', endAt = ''1970-01-01T05:00:00Z''\<rparr>,
      xcpcRankings =
        \<lparr>problemInfoByProblemSetProblemId =
           [(''p1'', \<lparr>label = ''B'', balloonRgb = ''#00ff00''\<rparr>)],
         rankings = []\<rparr>\<rparr>"

text \<open>A rank snapshot that lists problem \<open>B\<close> before problem \<open>A\<close>.\<close>

definition snapshot_ba :: rank_snapshot where
  "snapshot_ba =
     \<lparr>competitionBasicInfo =
        \<lparr>startAt = ''1970-01-01T00:00:00Z'', endAt = ''1970-01-01T05:00:00Z''\<rparr>,
      xcpcRankings =
        \<lparr>problemInfoByProblemSetProblemId =
           [(''p1'', \<lparr>label = ''B'', balloonRgb = ''#00ff00''\<rparr>),
            (''p2'', \<lparr>label = ''A'', balloonRgb = ''#ff0000''\<rparr>)],
         rankings = []\<rparr>\<rparr>"

text \<open>
  The object after the snapshot above has been parsed on a contest with the balloon
  method: the teams \<open>t1\<close> and \<open>t2\<close>, and the mapping of the three problems.
\<close>

definition example_parsed :: PTA where
  "example_parsed =
     (PTA_init Contest_init ''42'')
       \<lparr>teams := [(''t1'', make_team (example_ranking ''t1'' ''One'' False)),
                  (''t2'', make_team (example_ranking ''t2'' ''Two'' False))],
        team_ids := {''t1'', ''t2''},
        problem_ids := [(''p1'', 0), (''p2'', 1), (''p3'', 2)]\<rparr>"

text \<open>
  The scenario of 250 teams: team \<open>n\<close> has an id of \<open>n\<close> strokes, and the remote answers
  every request with status 200 and no submissions.
\<close>

definition numbered_team :: "nat \<Rightarrow> Team" where
  "numbered_team n =
     \<lparr>team_id = ''team-'' @ replicate n CHR ''i'', team_name = ''Team'',
      team_organization = ''School'', team_members = [], team_group = [],
      team_girl = False\<rparr>"

definition many_teams :: "nat \<Rightarrow> PTA" where
  "many_teams n =
     (PTA_init Contest_init ''42'')
       \<lparr>teams := map (\<lambda>k. (team_id (numbered_team k), numbered_team k)) [0..<n]\<rparr>"

definition quiet_remote :: remote where
  "quiet_remote w url = Response 200 (Inr (SubmissionsPayload []))"

text \<open>
  A rank snapshot with no problem and one team, whose \<open>teamInfo\<close> carries no
  \<open>teamFid\<close>; a remote for contest \<open>42\<close> that serves one group and this snapshot; a
  submission left in \<open>_runs\<close> by an earlier run.
\<close>

definition snapshot_no_team_fid :: rank_snapshot where
  "snapshot_no_team_fid =
     \<lparr>competitionBasicInfo =
        \<lparr>startAt = ''1970-01-01T00:00:00Z'', endAt = ''1970-01-01T05:00:00Z''\<rparr>,
      xcpcRankings =
        \<lparr>problemInfoByProblemSetProblemId = [],
         rankings =
           [\<lparr>teamFid = ''t1'',
             teamInfo = \<lparr>teamName = ''One'', memberNames = [], schoolName = ''School'',
                         excluded = False, girlMajor = False, groupFids = [''g1''],
                         teamInfo_teamFid = None\<rparr>,
             problemSubmissionDetailsByProblemSetProblemId = []\<rparr>]\<rparr>\<rparr>"

definition remote_no_team_fid :: remote where
  "remote_no_team_fid w url =
     (if url = ''https://pintia.cn/api/competitions/42/groups''
      then Response 200 (Inr (GroupsPayload [[(''fid'', ''g1''), (''name'', ''Official'')]]))
      else Response 200 (Inr (RankPayload snapshot_no_team_fid)))"

definition stale_run :: Submission where
  "stale_run =
     \<lparr>run_team_id = ''t0'', run_status = RESULT_UNKNOWN, run_problem_id = 0,
      run_timestamp = 0, run_submission_id = ''s0''\<rparr>"

section \<open>Facts about the operations\<close>

lemma retry_range: "[0..<kRetryTimes] = [0, 1, 2, 3, 4]"
  by (simp add: kRetryTimes_def upt_rec)

text \<open>
  Whatever the remote answers, a call of \<open>_fetch_and_parse_team_runs\<close> issues one GET
  and logs nothing: the loop never reaches its second iteration.
\<close>

lemma fetch_and_parse_team_runs_one_request:
  "snd (fetch_and_parse_team_runs ts rmt self tid w) =
     w @ [Get (request_url self (''xcpc-rankings-team-submissions?team_fid='' @ tid))]"
  by (simp add: fetch_and_parse_team_runs_def retry_range fetch_team_submissions_def
        fetch_rank_by_uri_def Let_def split: http_outcome.splits sum.splits prod.splits)

lemma fetch_and_parse_team_runs_not_None:
  "fst (fetch_and_parse_team_runs ts rmt self tid w) \<noteq> Inr None"
  by (simp add: fetch_and_parse_team_runs_def retry_range Let_def
        split: sum.splits prod.splits)

subsection \<open>Dictionaries\<close>

lemma map_fst_dict_set:
  "map fst (dict_set k v d) = (if k \<in> fst ` set d then map fst d else map fst d @ [k])"
  by (induction d) force+

lemma dict_set_keys: "fst ` set (dict_set k v d) = insert k (fst ` set d)"
proof -
  have "set (map fst (dict_set k v d)) = insert k (fst ` set d)"
    unfolding map_fst_dict_set by auto
  then show ?thesis by simp
qed

lemma dict_set_entries: "set (dict_set k v d) \<subseteq> insert (k, v) (set d)"
  by (induction d) (auto split: if_splits)

lemma dict_set_distinct: "distinct (map fst d) \<Longrightarrow> distinct (map fst (dict_set k v d))"
  unfolding map_fst_dict_set by auto

lemma dict_set_fresh: "k \<notin> fst ` set d \<Longrightarrow> dict_set k v d = d @ [(k, v)]"
  by (induction d) auto

lemma map_of_dict_set: "map_of (dict_set k v d) = (map_of d)(k \<mapsto> v)"
  by (induction d) (auto simp: fun_eq_iff)

subsection \<open>Team parsing\<close>

lemma parse_teams_loop_keys:
  "parse_teams_loop tms ids rs = (tms', ids') \<Longrightarrow>
     fst ` set tms' = fst ` set tms \<union> {teamFid r |r. r \<in> set rs \<and> \<not> excluded (teamInfo r)}
     \<and> ids' = ids \<union> {teamFid r |r. r \<in> set rs \<and> \<not> excluded (teamInfo r)}"
proof (induction rs arbitrary: tms ids)
  case Nil
  then show ?case by simp
next
  case (Cons r rs)
  show ?case
  proof (cases "excluded (teamInfo r)")
    case True
    with Cons.prems have "parse_teams_loop tms ids rs = (tms', ids')" by simp
    from Cons.IH [OF this] True show ?thesis by auto
  next
    case False
    with Cons.prems have
      "parse_teams_loop (dict_set (teamFid r) (make_team r) tms) (insert (teamFid r) ids) rs
         = (tms', ids')" by simp
    from Cons.IH [OF this] False show ?thesis by (auto simp: dict_set_keys)
  qed
qed

lemma parse_teams_loop_entries:
  "parse_teams_loop tms ids rs = (tms', ids') \<Longrightarrow> (tid, t) \<in> set tms' \<Longrightarrow>
     (tid, t) \<in> set tms \<or> (\<exists>r \<in> set rs. \<not> excluded (teamInfo r) \<and> teamFid r = tid \<and> t = make_team r)"
proof (induction rs arbitrary: tms ids)
  case Nil
  then show ?case by simp
next
  case (Cons r rs)
  show ?case
  proof (cases "excluded (teamInfo r)")
    case True
    with Cons.prems have "parse_teams_loop tms ids rs = (tms', ids')" by simp
    from Cons.IH [OF this Cons.prems(2)] show ?thesis by auto
  next
    case False
    with Cons.prems have
      "parse_teams_loop (dict_set (teamFid r) (make_team r) tms) (insert (teamFid r) ids) rs
         = (tms', ids')" by simp
    from Cons.IH [OF this Cons.prems(2)] False dict_set_entries [of "teamFid r" "make_team r" tms]
    show ?thesis by auto
  qed
qed

lemma parse_teams_loop_distinct:
  "parse_teams_loop tms ids rs = (tms', ids') \<Longrightarrow> distinct (map fst tms) \<Longrightarrow> distinct (map fst tms')"
  by (induction rs arbitrary: tms ids) (auto simp: dict_set_distinct split: if_splits)

subsection \<open>The placeholder path\<close>

lemma make_fake_runs_details_loop_id: "make_fake_runs_details_loop acc ds = acc"
  by (induction acc ds rule: make_fake_runs_details_loop.induct) (simp_all add: Let_def)

lemma make_fake_runs_loop_cases:
  "make_fake_runs_loop acc rs =
     (if \<forall>r \<in> set rs. teamInfo_teamFid (teamInfo r) \<noteq> None then Inr acc
      else Inl (KeyError ''teamFid''))"
  by (induction rs arbitrary: acc)
     (auto simp: make_fake_runs_details_loop_id split: option.splits)

lemma make_fake_runs_cases:
  "make_fake_runs data self = (Inr (), self\<lparr>runs := []\<rparr>)
   \<or> (\<exists>e. make_fake_runs data self = (Inl e, self))"
  by (simp add: make_fake_runs_def make_fake_runs_loop_cases split: payload.splits)

lemma parse_groups_runs: "runs (snd (parse_groups data self)) = runs self"
  by (simp add: parse_groups_def split: payload.splits sum.splits)

lemma parse_contest_runs: "runs (snd (parse_contest abc ts data self)) = runs self"
  by (simp add: parse_contest_def Let_def split: payload.splits sum.splits prod.splits)

lemma parse_teams_runs: "runs (snd (parse_teams data self)) = runs self"
  by (simp add: parse_teams_def split: payload.splits prod.splits)

lemma parse_False_runs:
  assumes "parse abc ts rmt False (w, self) = (r, w', self')"
  shows "(r = Inr () \<longrightarrow> runs self' = []) \<and> (runs self' = [] \<or> runs self' = runs self)"
proof -
  obtain g w1 where g: "fetch_groups rmt self w = (g, w1)" by (cases "fetch_groups rmt self w")
  show ?thesis
  proof (cases g)
    case (Inl e)
    with assms g show ?thesis by (auto simp: parse_def)
  next
    case (Inr groups)
    obtain r1 self1 where pg: "parse_groups groups self = (r1, self1)"
      by (cases "parse_groups groups self")
    from parse_groups_runs [of groups self] pg have s1: "runs self1 = runs self" by simp
    show ?thesis
    proof (cases r1)
      case (Inl e)
      with assms g Inr pg s1 show ?thesis by (auto simp: parse_def)
    next
      case u1: (Inr u)
      obtain k w2 where k: "fetch_rank rmt self1 w1 = (k, w2)" by (cases "fetch_rank rmt self1 w1")
      show ?thesis
      proof (cases k)
        case (Inl e)
        with assms g Inr pg u1 k s1 show ?thesis by (auto simp: parse_def)
      next
        case rnk: (Inr rnk)
        obtain r2 self2 where pc: "parse_contest abc ts rnk self1 = (r2, self2)"
          by (cases "parse_contest abc ts rnk self1")
        from parse_contest_runs [of abc ts rnk self1] pc s1 have s2: "runs self2 = runs self"
          by simp
        show ?thesis
        proof (cases r2)
          case (Inl e)
          with assms g Inr pg u1 k rnk pc s2 show ?thesis by (auto simp: parse_def)
        next
          case u2: (Inr u')
          obtain r3 self3 where pt: "parse_teams rnk self2 = (r3, self3)"
            by (cases "parse_teams rnk self2")
          from parse_teams_runs [of rnk self2] pt s2 have s3: "runs self3 = runs self" by simp
          show ?thesis
          proof (cases r3)
            case (Inl e)
            with assms g Inr pg u1 k rnk pc u2 pt s3 show ?thesis by (auto simp: parse_def)
          next
            case u3: (Inr u'')
            from assms g Inr pg u1 k rnk pc u2 pt u3
            have "make_fake_runs rnk self3 = (r, self')" and "w' = w2"
              by (auto simp: parse_def split: prod.splits)
            with make_fake_runs_cases [of rnk self3] s3 show ?thesis by auto
          qed
        qed
      qed
    qed
  qed
qed

lemma parse_False_fresh:
  "runs (snd (snd (parse abc ts rmt False (w, PTA_init c cid)))) = []"
proof -
  obtain r w' self' where p: "parse abc ts rmt False (w, PTA_init c cid) = (r, w', self')"
    by (cases "parse abc ts rmt False (w, PTA_init c cid)")
  from parse_False_runs [OF p] have "runs self' = []" by (auto simp: PTA_init_def)
  with p show ?thesis by simp
qed

subsection \<open>Submission parsing\<close>




subsection \<open>Contest parsing\<close>

lemma py_ord_single: "length s = 1 \<Longrightarrow> py_ord s = Inr (of_char (hd s))"
  by (cases s rule: py_ord.cases) simp_all

lemma dict_set_many_fresh:
  "distinct (map fst items) \<Longrightarrow> fst ` set items \<inter> fst ` set d = {} \<Longrightarrow>
     foldl (\<lambda>d (k, p). dict_set k (f p) d) d items = d @ map (\<lambda>(k, p). (k, f p)) items"
proof (induction items arbitrary: d)
  case Nil
  then show ?case by simp
next
  case (Cons kp items)
  obtain k p where kp: "kp = (k, p)" by (cases kp)
  from Cons.prems kp have fresh: "k \<notin> fst ` set d" by auto
  from Cons.prems kp have "distinct (map fst items)"
    and "fst ` set items \<inter> fst ` set (d @ [(k, f p)]) = {}" by auto
  from Cons.IH [OF this] kp fresh show ?case by (simp add: dict_set_fresh)
qed

lemma parse_contest_loop_returns:
  assumes frame: "\<forall>c col. \<exists>c'. abc c col = Inr c' \<and> problem_id c' = problem_id c"
    and single: "\<forall>(p_id, p) \<in> set items. length (label p) = 1"
  shows "\<exists>c'. parse_contest_loop abc c pids items
            = (Inr (foldl (\<lambda>d (p_id, p).
                       dict_set p_id (of_char (hd (label p)) - of_char CHR ''A'') d) pids items),
               c')
          \<and> problem_id c' = problem_id c @ map (\<lambda>(p_id, p). label p) items"
  using single
proof (induction items arbitrary: c pids)
  case Nil
  then show ?case by simp
next
  case (Cons kp items)
  obtain p_id p where kp: "kp = (p_id, p)" by (cases kp)
  let ?c1 = "c\<lparr>problem_id := problem_id c @ [label p]\<rparr>"
  from frame obtain c2 where
    c2: "abc ?c1 \<lparr>background_color = balloonRgb p, color = ''#000''\<rparr> = Inr c2"
    and lbl: "problem_id c2 = problem_id ?c1" by blast
  from Cons.prems kp have ord: "py_ord (label p) = Inr (of_char (hd (label p)))"
    by (simp add: py_ord_single)
  from Cons.prems have "\<forall>(p_id, p) \<in> set items. length (label p) = 1" by simp
  from Cons.IH [OF this, of c2 "dict_set p_id (of_char (hd (label p)) - of_char CHR ''A'') pids"]
  obtain c' where
    "parse_contest_loop abc c2 (dict_set p_id (of_char (hd (label p)) - of_char CHR ''A'') pids) items
       = (Inr (foldl (\<lambda>d (p_id, p).
                 dict_set p_id (of_char (hd (label p)) - of_char CHR ''A'') d)
               (dict_set p_id (of_char (hd (label p)) - of_char CHR ''A'') pids) items), c')"
    and "problem_id c' = problem_id c2 @ map (\<lambda>(p_id, p). label p) items" by blast
  with kp c2 lbl ord show ?case by (simp add: Let_def)
qed

subsection \<open>The batch orchestrator\<close>

lemma process_team_runs_batch_Nil:
  "process_team_runs_batch ts rmt self [] w = (Inr [], w)"
  by (simp add: process_team_runs_batch_def)

lemma process_team_runs_batch_Cons:
  "process_team_runs_batch ts rmt self (team # rest) w =
     (case fetch_and_parse_team_runs ts rmt self (team_id team) w of
        (r, w1) \<Rightarrow>
          (case process_team_runs_batch ts rmt self rest w1 of
             (rr, w2) \<Rightarrow>
               (case r of
                  Inl e \<Rightarrow> (Inl e, w2)
                | Inr team_run \<Rightarrow>
                    (case rr of
                       Inl e \<Rightarrow> (Inl e, w2)
                     | Inr others \<Rightarrow> (Inr (team_run # others), w2)))))"
  by (simp add: process_team_runs_batch_def split: prod.splits sum.splits)

text \<open>Every request of a batch is issued, whether or not the batch fails.\<close>

lemma process_team_runs_batch_requests:
  "snd (process_team_runs_batch ts rmt self b w)
     = w @ map (\<lambda>t. Get (request_url self
                    (''xcpc-rankings-team-submissions?team_fid='' @ team_id t))) b"
proof (induction b arbitrary: w)
  case Nil
  then show ?case by (simp add: process_team_runs_batch_Nil)
next
  case (Cons team rest)
  obtain r1 w1 where one: "fetch_and_parse_team_runs ts rmt self (team_id team) w = (r1, w1)"
    by (cases "fetch_and_parse_team_runs ts rmt self (team_id team) w")
  from fetch_and_parse_team_runs_one_request [of ts rmt self "team_id team" w] one
  have w1: "w1 = w @ [Get (request_url self
                     (''xcpc-rankings-team-submissions?team_fid='' @ team_id team))]"
    by simp
  obtain r2 w2 where rest: "process_team_runs_batch ts rmt self rest w1 = (r2, w2)"
    by (cases "process_team_runs_batch ts rmt self rest w1")
  from Cons.IH [of w1] rest
  have w2: "w2 = w1 @ map (\<lambda>t. Get (request_url self
                    (''xcpc-rankings-team-submissions?team_fid='' @ team_id t))) rest"
    by simp
  from one rest have "snd (process_team_runs_batch ts rmt self (team # rest) w) = w2"
    by (simp add: process_team_runs_batch_Cons split: sum.splits)
  with w2 w1 show ?case by simp
qed

lemma process_team_runs_batch_returns:
  "process_team_runs_batch ts rmt self b w = (Inr res, w') \<Longrightarrow>
     w' = w @ map (\<lambda>t. Get (request_url self
                    (''xcpc-rankings-team-submissions?team_fid='' @ team_id t))) b
     \<and> (\<exists>rss. res = map Some rss \<and> list_all2 (fetched_for ts rmt self) b rss)"
proof (induction b arbitrary: w w' res)
  case Nil
  then show ?case by (simp add: process_team_runs_batch_Nil)
next
  case (Cons team rest)
  obtain r1 w1 where one: "fetch_and_parse_team_runs ts rmt self (team_id team) w = (r1, w1)"
    by (cases "fetch_and_parse_team_runs ts rmt self (team_id team) w")
  from fetch_and_parse_team_runs_one_request [of ts rmt self "team_id team" w] one
  have w1: "w1 = w @ [Get (request_url self
                     (''xcpc-rankings-team-submissions?team_fid='' @ team_id team))]"
    by simp
  obtain r2 w2 where rest: "process_team_runs_batch ts rmt self rest w1 = (r2, w2)"
    by (cases "process_team_runs_batch ts rmt self rest w1")
  from Cons.prems one rest obtain team_run where r1: "r1 = Inr team_run"
    by (cases r1) (auto simp: process_team_runs_batch_Cons)
  from fetch_and_parse_team_runs_not_None [of ts rmt self "team_id team" w] one r1
  obtain rs where rs: "team_run = Some rs" by (cases team_run) auto
  from Cons.prems one r1 rest obtain others where r2: "r2 = Inr others"
    by (cases r2) (auto simp: process_team_runs_batch_Cons)
  from Cons.prems one r1 rest r2 have res: "res = team_run # others" and w': "w' = w2"
    by (auto simp: process_team_runs_batch_Cons)
  from Cons.IH [OF rest [unfolded r2]] obtain rss where
    w2: "w2 = w1 @ map (\<lambda>t. Get (request_url self
                    (''xcpc-rankings-team-submissions?team_fid='' @ team_id t))) rest"
    and others: "others = map Some rss" and rel: "list_all2 (fetched_for ts rmt self) rest rss"
    by blast
  from one r1 rs have "fetched_for ts rmt self team rs"
    unfolding fetched_for_def by blast
  with rel have "list_all2 (fetched_for ts rmt self) (team # rest) (rs # rss)" by simp
  moreover from res rs others have "res = map Some (rs # rss)" by simp
  moreover from w' w2 w1
  have "w' = w @ map (\<lambda>t. Get (request_url self
                    (''xcpc-rankings-team-submissions?team_fid='' @ team_id t))) (team # rest)"
    by simp
  ultimately show ?case by blast
qed

lemma extend_all_Some: "extend_all acc (map Some rss) = Inr (acc @ concat rss)"
  by (induction rss arbitrary: acc) simp_all

lemma batch_index:
  "i = k * batch_size \<Longrightarrow>
     (i < length tms) = (k < (length tms + batch_size - 1) div batch_size)"
proof -
  assume i: "i = k * batch_size"
  have "(k < (length tms + 99) div 100) = (Suc k \<le> (length tms + 99) div 100)" by auto
  also have "\<dots> = (Suc k * 100 \<le> length tms + 99)"
    by (rule less_eq_div_iff_mult_less_eq) simp
  also have "\<dots> = (k * 100 < length tms)" by auto
  finally have "(k < (length tms + 99) div 100) = (k * 100 < length tms)" .
  moreover have "length tms + batch_size - 1 = length tms + 99" by (simp add: batch_size_def)
  ultimately show ?thesis unfolding i by (simp only: batch_size_def)
qed

lemma parse_batches_returns:
  "parse_batches ts rmt self tms i acc w = (Inr all_runs, w') \<Longrightarrow> i = k * batch_size \<Longrightarrow>
     w' = w @ concat (map (\<lambda>j. batch_events self j (take batch_size (drop (j * batch_size) tms)))
                        [k..<(length tms + batch_size - 1) div batch_size])
     \<and> (\<exists>rss. list_all2 (fetched_for ts rmt self) (drop i tms) rss
               \<and> all_runs = acc @ concat rss)"
proof (induction ts rmt self tms i acc w arbitrary: k rule: parse_batches.induct)
  case (1 ts rmt self tms i acc w)
  let ?n = "(length tms + batch_size - 1) div batch_size"
  let ?b = "take batch_size (drop i tms)"
  let ?w1 = "if i > 0 then w @ [Sleep 1] else w"
  show ?case
  proof (cases "i < length tms")
    case False
    with "1.prems" batch_index [of i k tms] have "?n \<le> k" by simp
    then have "concat (map (\<lambda>j. batch_events self j
                                 (take batch_size (drop (j * batch_size) tms))) [k..<?n]) = []"
      by simp
    moreover from False "1.prems" have "w' = w" and "all_runs = acc"
      by (simp_all add: parse_batches.simps)
    moreover from False have "drop i tms = []" by simp
    ultimately show ?thesis by simp
  next
    case True
    obtain r w2 where batch: "process_team_runs_batch ts rmt self ?b ?w1 = (r, w2)"
      by (cases "process_team_runs_batch ts rmt self ?b ?w1")
    from "1.prems"(1) True batch obtain res where r: "r = Inr res"
      by (cases r) (auto simp: parse_batches.simps [of _ _ _ _ i] Let_def)
    from process_team_runs_batch_returns [OF batch [unfolded r]] obtain rss where
      w2: "w2 = ?w1 @ map (\<lambda>t. Get (request_url self
                    (''xcpc-rankings-team-submissions?team_fid='' @ team_id t))) ?b"
      and res: "res = map Some rss"
      and rel: "list_all2 (fetched_for ts rmt self) ?b rss" by blast
    have ext: "extend_all acc res = Inr (acc @ concat rss)"
      by (simp add: res extend_all_Some)
    from "1.prems"(1) True batch r ext
    have rec: "parse_batches ts rmt self tms (i + batch_size) (acc @ concat rss)
                 (w2 @ [LogInfo (i + length ?b)]) = (Inr all_runs, w')"
      by (simp add: parse_batches.simps [of _ _ _ _ i] Let_def)
    have next_k: "i + batch_size = Suc k * batch_size" using "1.prems"(2) by simp
    from "1.IH" [OF True refl refl batch [symmetric] r ext rec next_k]
    obtain rss' where
      w': "w' = (w2 @ [LogInfo (i + length ?b)])
                @ concat (map (\<lambda>j. batch_events self j
                                 (take batch_size (drop (j * batch_size) tms)))
                            [Suc k..<?n])"
      and rel': "list_all2 (fetched_for ts rmt self) (drop (i + batch_size) tms) rss'"
      and all: "all_runs = (acc @ concat rss) @ concat rss'" by blast
    from True "1.prems"(2) batch_index [of i k tms] have "k < ?n" by simp
    then have upt: "[k..<?n] = k # [Suc k..<?n]" by (simp add: upt_conv_Cons)
    have "(k > 0) = (i > 0)" using "1.prems"(2) by (simp add: batch_size_def)
    then have ev: "?w1 @ map (\<lambda>t. Get (request_url self
                    (''xcpc-rankings-team-submissions?team_fid='' @ team_id t))) ?b
                 @ [LogInfo (i + length ?b)]
               = w @ batch_events self k (take batch_size (drop (k * batch_size) tms))"
      using "1.prems"(2) by (simp add: batch_events_def)
    have "drop batch_size (drop i tms) = drop (i + batch_size) tms"
      by (simp add: add.commute)
    then have split: "?b @ drop (i + batch_size) tms = drop i tms"
      using append_take_drop_id [of batch_size "drop i tms"] by simp
    have "list_all2 (fetched_for ts rmt self) (drop i tms) (rss @ rss')"
      using list_all2_appendI [OF rel rel'] unfolding split .
    moreover from all have "all_runs = acc @ concat (rss @ rss')" by simp
    moreover from w' w2 ev upt
    have "w' = w @ concat (map (\<lambda>j. batch_events self j
                                 (take batch_size (drop (j * batch_size) tms))) [k..<?n])"
      by simp
    ultimately show ?thesis by blast
  qed
qed

lemma length_batches: "length (batches tms) = (length tms + batch_size - 1) div batch_size"
  by (simp add: batches_def)

lemma concat_batches_from:
  "concat (map (\<lambda>k. take batch_size (drop (k * batch_size) tms))
             [j..<(length tms + batch_size - 1) div batch_size])
     = drop (j * batch_size) tms"
proof (induction "(length tms + batch_size - 1) div batch_size - j" arbitrary: j)
  case 0
  then have "\<not> j < (length tms + batch_size - 1) div batch_size" by simp
  with batch_index [of "j * batch_size" j tms] have "\<not> j * batch_size < length tms" by simp
  with 0 show ?case by simp
next
  case (Suc d)
  then have lt: "j < (length tms + batch_size - 1) div batch_size" by simp
  from Suc have "d = (length tms + batch_size - 1) div batch_size - Suc j" by simp
  from Suc.hyps(1) [OF this]
  have "concat (map (\<lambda>k. take batch_size (drop (k * batch_size) tms))
                  [Suc j..<(length tms + batch_size - 1) div batch_size])
          = drop (Suc j * batch_size) tms" .
  moreover have "drop batch_size (drop (j * batch_size) tms) = drop (Suc j * batch_size) tms"
    by (simp add: add.commute)
  then have "drop (j * batch_size) tms
      = take batch_size (drop (j * batch_size) tms) @ drop (Suc j * batch_size) tms"
    using append_take_drop_id [of batch_size "drop (j * batch_size) tms"] by simp
  ultimately show ?case using lt by (simp add: upt_conv_Cons)
qed

lemma concat_batches: "concat (batches tms) = tms"
  using concat_batches_from [of tms 0] by (simp add: batches_def)

lemma nth_batches:
  "k < length (batches tms) \<Longrightarrow> batches tms ! k = take batch_size (drop (k * batch_size) tms)"
  by (simp add: batches_def)

lemma length_nth_batches:
  assumes "k < length (batches tms)"
  shows "length (batches tms ! k)
           = (if Suc k < length (batches tms) then batch_size
              else length tms - k * batch_size)
         \<and> 0 < length (batches tms ! k) \<and> length (batches tms ! k) \<le> batch_size"
proof -
  from assms batch_index [of "k * batch_size" k tms]
  have here: "k * batch_size < length tms" by (simp add: length_batches)
  have len: "length (batches tms ! k) = min batch_size (length tms - k * batch_size)"
    using assms by (simp add: nth_batches min.commute)
  show ?thesis
  proof (cases "Suc k < length (batches tms)")
    case True
    with batch_index [of "Suc k * batch_size" "Suc k" tms]
    have "Suc k * batch_size < length tms" by (simp add: length_batches)
    with len True show ?thesis by (simp add: batch_size_def)
  next
    case False
    with batch_index [of "Suc k * batch_size" "Suc k" tms]
    have "length tms \<le> Suc k * batch_size" by (simp add: length_batches)
    with len here False show ?thesis by (simp add: batch_size_def)
  qed
qed

text \<open>A sweep returns when every per-team call it makes returns.\<close>

lemma process_team_runs_batch_succeeds:
  assumes "\<forall>t \<in> set b. \<forall>w. \<exists>rs w1.
             fetch_and_parse_team_runs ts rmt self (team_id t) w = (Inr (Some rs), w1)"
  shows "\<exists>rss w'. process_team_runs_batch ts rmt self b w = (Inr (map Some rss), w')"
  using assms
proof (induction b arbitrary: w)
  case Nil
  have "process_team_runs_batch ts rmt self [] w = (Inr (map Some []), w)"
    by (simp add: process_team_runs_batch_Nil)
  then show ?case by blast
next
  case (Cons team rest)
  from Cons.prems obtain rs w1 where
    one: "fetch_and_parse_team_runs ts rmt self (team_id team) w = (Inr (Some rs), w1)"
    by (meson list.set_intros(1))
  from Cons.prems have "\<forall>t \<in> set rest. \<forall>w. \<exists>rs w1.
      fetch_and_parse_team_runs ts rmt self (team_id t) w = (Inr (Some rs), w1)" by simp
  from Cons.IH [OF this, of w1] obtain rss w' where
    "process_team_runs_batch ts rmt self rest w1 = (Inr (map Some rss), w')" by blast
  with one have "process_team_runs_batch ts rmt self (team # rest) w
                   = (Inr (map Some (rs # rss)), w')"
    by (simp add: process_team_runs_batch_Cons)
  then show ?case by blast
qed

lemma parse_batches_succeeds:
  assumes "\<forall>t \<in> set tms. \<forall>w. \<exists>rs w1.
             fetch_and_parse_team_runs ts rmt self (team_id t) w = (Inr (Some rs), w1)"
  shows "\<exists>all_runs w'. parse_batches ts rmt self tms i acc w = (Inr all_runs, w')"
  using assms
proof (induction ts rmt self tms i acc w rule: parse_batches.induct)
  case (1 ts rmt self tms i acc w)
  let ?b = "take batch_size (drop i tms)"
  let ?w1 = "if i > 0 then w @ [Sleep 1] else w"
  show ?case
  proof (cases "i < length tms")
    case False
    then show ?thesis by (simp add: parse_batches.simps)
  next
    case True
    have "set ?b \<subseteq> set tms" by (meson set_take_subset set_drop_subset subset_trans)
    with "1.prems" have "\<forall>t \<in> set ?b. \<forall>w. \<exists>rs w1.
        fetch_and_parse_team_runs ts rmt self (team_id t) w = (Inr (Some rs), w1)" by blast
    from process_team_runs_batch_succeeds [OF this, of ?w1] obtain rss w2 where
      batch: "process_team_runs_batch ts rmt self ?b ?w1 = (Inr (map Some rss), w2)" by blast
    have ext: "extend_all acc (map Some rss) = Inr (acc @ concat rss)"
      by (rule extend_all_Some)
    from "1.IH" [OF True refl refl batch [symmetric] refl ext "1.prems"]
    obtain all_runs w' where
      "parse_batches ts rmt self tms (i + batch_size) (acc @ concat rss)
         (w2 @ [LogInfo (i + length ?b)]) = (Inr all_runs, w')" by blast
    with True batch ext
    have "parse_batches ts rmt self tms i acc w = (Inr all_runs, w')"
      by (simp add: parse_batches.simps [of _ _ _ _ i] Let_def)
    then show ?thesis by blast
  qed
qed

subsection \<open>What the departures of C1, C4 and C8 amount to on every input\<close>

text \<open>
  \<open>_parse_groups\<close> on a non-empty list of group records that carry \<open>name\<close> and \<open>fid\<close>:
  the result is the last record with its own \<open>fid: name\<close> entry added, whatever the
  records before it hold.
\<close>

lemma parse_groups_loop_last:
  "gs \<noteq> [] \<Longrightarrow> \<forall>g \<in> set gs. map_of g ''name'' \<noteq> None \<and> map_of g ''fid'' \<noteq> None \<Longrightarrow>
     parse_groups_loop grp gs
       = Inr (dict_set (the (map_of (last gs) ''fid'')) (the (map_of (last gs) ''name''))
                (last gs))"
proof (induction gs arbitrary: grp)
  case Nil
  then show ?case by simp
next
  case (Cons g gs)
  from Cons.prems obtain nm fid where
    g: "map_of g ''name'' = Some nm" "map_of g ''fid'' = Some fid" by auto
  show ?case
  proof (cases "gs = []")
    case True
    with g show ?thesis by simp
  next
    case False
    with Cons.IH [of "dict_set fid nm g"] Cons.prems g show ?thesis by simp
  qed
qed

text \<open>
  \<open>_parse_contest\<close> on a contest of class \<open>Contest\<close>: every rank snapshot that has a
  problem, and timestamps the helper accepts, ends in the \<open>AttributeError\<close> after the
  first label has been appended.
\<close>

lemma parse_contest_class_Contest_raises:
  assumes "ts (startAt (competitionBasicInfo rk)) = Inr t0"
    and "ts (endAt (competitionBasicInfo rk)) = Inr t1"
    and "problemInfoByProblemSetProblemId (xcpcRankings rk) = (p_id, p) # rest"
  shows "parse_contest Contest_append_balloon_color ts (RankPayload rk) self
           = (Inl (AttributeError ''append_balloon_color''),
              self\<lparr>contest := (contest self)\<lparr>start_time := t0, end_time := t1,
                                              problem_id := [label p], balloon_color := []\<rparr>\<rparr>)"
  using assms
  by (simp add: parse_contest_def Contest_append_balloon_color_def Let_def)

text \<open>
  On a contest that has the method, appending the colour, a call of \<open>_parse_contest\<close>
  that returns leaves as many labels as balloon colours, and \<open>problem_quantity\<close> is
  their number.
\<close>

lemma appending_balloon_color_apply:
  "appending_balloon_color c col = Inr (c\<lparr>balloon_color := balloon_color c @ [col]\<rparr>)"
  by (simp add: appending_balloon_color_def)

lemma parse_contest_loop_appending_lengths:
  assumes app: "\<And>c col. abc c col = Inr (c\<lparr>balloon_color := balloon_color c @ [col]\<rparr>)"
  shows "parse_contest_loop abc c pids items = (r, c') \<Longrightarrow>
         length (problem_id c) = length (balloon_color c) \<Longrightarrow>
           length (problem_id c') = length (balloon_color c')"
proof (induction items arbitrary: c pids)
  case Nil
  then show ?case by simp
next
  case (Cons kp items)
  obtain p_id p where kp: "kp = (p_id, p)" by (cases kp)
  let ?c2 = "c\<lparr>problem_id := problem_id c @ [label p],
                balloon_color := balloon_color c
                   @ [\<lparr>background_color = balloonRgb p, color = ''#000''\<rparr>]\<rparr>"
  have step: "parse_contest_loop abc c pids (kp # items)
      = (case py_ord (label p) of
           Inl e \<Rightarrow> (Inl e, ?c2)
         | Inr n \<Rightarrow>
             parse_contest_loop abc ?c2 (dict_set p_id (n - of_char CHR ''A'') pids) items)"
    using app [of "c\<lparr>problem_id := problem_id c @ [label p]\<rparr>"
                  "\<lparr>background_color = balloonRgb p, color = ''#000''\<rparr>"]
    by (simp add: kp Let_def)
  show ?case
  proof (cases "py_ord (label p)")
    case (Inl e)
    with Cons.prems(1) step have "c' = ?c2" by simp
    with Cons.prems(2) show ?thesis by simp
  next
    case (Inr n)
    with Cons.prems(1) step
    have "parse_contest_loop abc ?c2 (dict_set p_id (n - of_char CHR ''A'') pids) items
            = (r, c')"
      by simp
    from Cons.IH [OF this] Cons.prems(2) show ?thesis by simp
  qed
qed

lemma parse_contest_appending_invariant:
  assumes "parse_contest appending_balloon_color ts data self = (Inr (), self')"
  shows "int (length (problem_id (contest self'))) = problem_quantity (contest self')
         \<and> length (problem_id (contest self')) = length (balloon_color (contest self'))"
proof (cases data)
  case (RankPayload rk)
  from assms RankPayload obtain t0 t1 where
    t0: "ts (startAt (competitionBasicInfo rk)) = Inr t0"
    and t1: "ts (endAt (competitionBasicInfo rk)) = Inr t1"
    by (auto simp: parse_contest_def Let_def split: sum.splits)
  let ?c1 = "(contest self)\<lparr>start_time := t0, end_time := t1, problem_id := [],
                              balloon_color := []\<rparr>"
  obtain r c2 where loop: "parse_contest_loop appending_balloon_color ?c1 []
      (problemInfoByProblemSetProblemId (xcpcRankings rk)) = (r, c2)"
    by (cases "parse_contest_loop appending_balloon_color ?c1 []
          (problemInfoByProblemSetProblemId (xcpcRankings rk))")
  from parse_contest_loop_appending_lengths [OF appending_balloon_color_apply loop]
  have len: "length (problem_id c2) = length (balloon_color c2)" by simp
  from assms RankPayload t0 t1 loop
  have "contest self' = c2\<lparr>problem_quantity := int (length (problem_id c2))\<rparr>"
    by (auto simp: parse_contest_def Let_def split: sum.splits)
  with len show ?thesis by simp
qed (use assms in \<open>simp_all add: parse_contest_def\<close>)

section \<open>The claims\<close>

text \<open>
  C1 (the code departs from the claim). The claim: \<open>_fetch_and_parse_team_runs\<close> makes
  up to 5 attempts and fails only after all of them failed. The code, on a remote
  that rejects the first request for team \<open>t1\<close> and would accept the second: one GET,
  then the call fails with the error of that first attempt; the \<open>except\<close> handler
  re-raises at once.
\<close>

theorem fetch_and_parse_team_runs_fails_on_first_error:
  "fetch_and_parse_team_runs ts flaky_once (PTA_init c ''42'') ''t1'' [] =
     (Inl (RequestFailed
        ''https://pintia.cn/api/competitions/42/xcpc-rankings-team-submissions?team_fid=t1''
        500),
      [Get ''https://pintia.cn/api/competitions/42/xcpc-rankings-team-submissions?team_fid=t1''])
   \<and> flaky_once
        [Get ''https://pintia.cn/api/competitions/42/xcpc-rankings-team-submissions?team_fid=t1'']
        ''https://pintia.cn/api/competitions/42/xcpc-rankings-team-submissions?team_fid=t1''
      = Response 200 (Inr (SubmissionsPayload []))"
  by (simp add: fetch_and_parse_team_runs_def retry_range fetch_team_submissions_def
        fetch_rank_by_uri_def request_url_def PTA_init_def flaky_once_def Let_def)

text \<open>
  C2. For every \<open>fetch_runs\<close>, every remote and every state, \<open>run(fetch_runs)\<close> raises
  \<open>TypeError\<close> and leaves the trace and the object as they were: \<open>asyncio.run\<close> is
  handed the function \<open>self._parse\<close> and \<open>fetch_runs\<close> as two positional arguments, so
  nothing of \<open>_parse\<close> is executed.
\<close>

theorem run_raises_before_ingestion:
  "run abc ts rmt fetch_runs ws =
     (Inl (TypeError ''run() takes 1 positional argument''), ws)"
  by (simp add: run_def)

text \<open>
  C4 (the code departs from the claim). The claim: \<open>_parse_groups\<close> attaches the
  mapping from every \<open>fid\<close> of the payload to its name, one entry per group record.
  The code, on the two groups \<open>a\<close> (named \<open>X\<close>) and \<open>b\<close> (named \<open>Y\<close>): the contest gets
  the last group record itself with the entry \<open>b: Y\<close> added to it; group \<open>a\<close> is
  nowhere in it, and \<open>fid\<close> and \<open>name\<close> are keys of it.
\<close>

theorem parse_groups_keeps_last_record:
  "parse_groups
     (GroupsPayload
        [[(''fid'', ''a''), (''name'', ''X'')], [(''fid'', ''b''), (''name'', ''Y'')]])
     (PTA_init Contest_init cid)
   = (Inr (),
      (PTA_init Contest_init cid)\<lparr>contest := Contest_init\<lparr>contest_group :=
         Some [(''fid'', ''b''), (''name'', ''Y''), (''b'', ''Y'')]\<rparr>\<rparr>)"
  by (simp add: parse_groups_def PTA_init_def)

text \<open>
  C8 (the code departs from the claim). The claim: after \<open>_parse_contest\<close>,
  \<open>len(problem_id) == problem_quantity == len(balloon_color)\<close>. The code, on a
  snapshot with one problem and a contest of class \<open>Contest\<close>: the label is appended,
  the call of \<open>append_balloon_color\<close> raises \<open>AttributeError\<close>, and the contest is left
  with one label, no balloon colour and a problem quantity of 0.
\<close>

theorem parse_contest_raises_on_first_problem:
  "parse_contest Contest_append_balloon_color iso_example (RankPayload snapshot_one_problem)
     (PTA_init Contest_init cid)
   = (Inl (AttributeError ''append_balloon_color''),
      (PTA_init Contest_init cid)\<lparr>contest :=
         Contest_init\<lparr>start_time := 0, end_time := 18000, problem_id := [''A''],
                       balloon_color := []\<rparr>\<rparr>)
   \<and> problem_quantity Contest_init = 0"
  by (simp add: parse_contest_def snapshot_one_problem_def iso_example_def PTA_init_def
        Contest_append_balloon_color_def Contest_init_def Let_def)




text \<open>
  C9. For every rank snapshot, \<open>_parse_teams\<close> returns normally, and the keys of the
  team collection and the recorded set of team ids are both exactly the ids of the
  records whose exclusion flag is false; the collection has one entry per id, and
  every \<open>Team\<close> in it is built from a record of its id whose flag is false.
\<close>

theorem parse_teams_keeps_exactly_the_unexcluded:
  "\<exists>self'. parse_teams (RankPayload rk) self = (Inr (), self')
     \<and> fst ` set (teams self')
         = {teamFid r |r. r \<in> set (rankings (xcpcRankings rk)) \<and> \<not> excluded (teamInfo r)}
     \<and> team_ids self'
         = {teamFid r |r. r \<in> set (rankings (xcpcRankings rk)) \<and> \<not> excluded (teamInfo r)}
     \<and> distinct (map fst (teams self'))
     \<and> (\<forall>(tid, t) \<in> set (teams self').
           \<exists>r \<in> set (rankings (xcpcRankings rk)).
             \<not> excluded (teamInfo r) \<and> teamFid r = tid \<and> t = make_team r)"
proof -
  obtain tms ids where loop: "parse_teams_loop [] {} (rankings (xcpcRankings rk)) = (tms, ids)"
    by (cases "parse_teams_loop [] {} (rankings (xcpcRankings rk))")
  let ?self' = "self\<lparr>teams := tms, team_ids := ids\<rparr>"
  have "parse_teams (RankPayload rk) self = (Inr (), ?self')"
    by (simp add: parse_teams_def loop)
  moreover from parse_teams_loop_keys [OF loop]
  have "fst ` set (teams ?self')
          = {teamFid r |r. r \<in> set (rankings (xcpcRankings rk)) \<and> \<not> excluded (teamInfo r)}"
    and "team_ids ?self'
          = {teamFid r |r. r \<in> set (rankings (xcpcRankings rk)) \<and> \<not> excluded (teamInfo r)}"
    by simp_all
  moreover from parse_teams_loop_distinct [OF loop] have "distinct (map fst (teams ?self'))"
    by simp
  moreover have "\<forall>(tid, t) \<in> set (teams ?self').
           \<exists>r \<in> set (rankings (xcpcRankings rk)).
             \<not> excluded (teamInfo r) \<and> teamFid r = tid \<and> t = make_team r"
    using parse_teams_loop_entries [OF loop] by auto
  ultimately show ?thesis by blast
qed

text \<open>
  The scenario of the specification: of the teams \<open>t1\<close>, \<open>t3\<close> (excluded) and \<open>t2\<close>, the
  ids \<open>t1\<close> and \<open>t2\<close> survive.
\<close>

theorem parse_teams_keeps_exactly_the_unexcluded_witness:
  "\<exists>self'. parse_teams (RankPayload snapshot_abc) (PTA_init Contest_init ''42'') = (Inr (), self')
     \<and> fst ` set (teams self') = {''t1'', ''t2''}
     \<and> team_ids self' = {''t1'', ''t2''}
     \<and> map fst (teams self') = [''t1'', ''t2'']"
proof -
  from parse_teams_keeps_exactly_the_unexcluded [of snapshot_abc "PTA_init Contest_init ''42''"]
  obtain self' where
    p: "parse_teams (RankPayload snapshot_abc) (PTA_init Contest_init ''42'') = (Inr (), self')"
    and k: "fst ` set (teams self') = {teamFid r |r.
              r \<in> set (rankings (xcpcRankings snapshot_abc)) \<and> \<not> excluded (teamInfo r)}"
    and i: "team_ids self' = {teamFid r |r.
              r \<in> set (rankings (xcpcRankings snapshot_abc)) \<and> \<not> excluded (teamInfo r)}"
    by blast
  have "{teamFid r |r. r \<in> set (rankings (xcpcRankings snapshot_abc))
              \<and> \<not> excluded (teamInfo r)}
          = set (map teamFid (filter (\<lambda>r. \<not> excluded (teamInfo r))
                                (rankings (xcpcRankings snapshot_abc))))"
    by auto
  then have e: "{teamFid r |r. r \<in> set (rankings (xcpcRankings snapshot_abc))
              \<and> \<not> excluded (teamInfo r)} = {''t1'', ''t2''}"
    by (simp add: snapshot_abc_def example_ranking_def)
  from p have "map fst (teams self') = [''t1'', ''t2'']"
    by (auto simp: parse_teams_def snapshot_abc_def example_ranking_def)
  with p k i e show ?thesis by auto
qed

text \<open>
  C10 (corrected). The claim: with \<open>fetch_runs = False\<close> the placeholder path always
  installs an empty collection, whatever the snapshot holds. On the snapshot whose
  \<open>teamInfo\<close> carries no \<open>teamFid\<close>, \<open>_make_fake_runs\<close> raises \<open>KeyError\<close> at pta.py:139
  and installs nothing: an object that held a submission still holds it, after the
  call and after the run of \<open>_parse\<close> on a contest of class \<open>Contest\<close>.
\<close>

theorem make_fake_runs_raises_without_team_fid:
  "make_fake_runs (RankPayload snapshot_no_team_fid)
     ((PTA_init Contest_init ''42'')\<lparr>runs := [stale_run]\<rparr>)
   = (Inl (KeyError ''teamFid''), (PTA_init Contest_init ''42'')\<lparr>runs := [stale_run]\<rparr>)
   \<and> fst (parse Contest_append_balloon_color iso_example remote_no_team_fid False
            ([], (PTA_init Contest_init ''42'')\<lparr>runs := [stale_run]\<rparr>))
     = Inl (KeyError ''teamFid'')
   \<and> runs (snd (snd (parse Contest_append_balloon_color iso_example remote_no_team_fid False
                       ([], (PTA_init Contest_init ''42'')\<lparr>runs := [stale_run]\<rparr>))))
     = [stale_run]"
  by (simp add: parse_def fetch_groups_def fetch_rank_def fetch_rank_by_uri_def
        request_url_def remote_no_team_fid_def PTA_init_def parse_groups_def
        parse_contest_def parse_teams_def make_fake_runs_def snapshot_no_team_fid_def
        iso_example_def Let_def)

text \<open>
  C10 as amended. \<open>_make_fake_runs\<close> never appends: its loop returns the accumulator
  it was given or raises. So for every payload it either installs the empty
  collection or raises and leaves the object as it was, and it installs the empty
  collection for every rank snapshot whose \<open>teamInfo\<close> records carry \<open>teamFid\<close>.
  Driven with \<open>fetch_runs = False\<close>, a run of \<open>_parse\<close> that returns has stored the
  empty sequence, and on a fresh \<open>PTA\<close> the stored sequence is empty however the run
  ends.
\<close>

theorem make_fake_runs_installs_no_submission:
  "(\<forall>acc'. make_fake_runs_loop acc rs = Inr acc' \<longrightarrow> acc' = acc)
   \<and> (make_fake_runs data self = (Inr (), self\<lparr>runs := []\<rparr>)
        \<or> (\<exists>e. make_fake_runs data self = (Inl e, self)))
   \<and> ((\<forall>r \<in> set (rankings (xcpcRankings rk)). teamInfo_teamFid (teamInfo r) \<noteq> None)
        \<longrightarrow> make_fake_runs (RankPayload rk) self = (Inr (), self\<lparr>runs := []\<rparr>))
   \<and> (parse abc ts rmt False (w, self) = (Inr (), w', self') \<longrightarrow> runs self' = [])
   \<and> runs (snd (snd (parse abc ts rmt False (w, PTA_init c cid)))) = []"
proof (intro conjI impI allI)
  fix acc'
  assume "make_fake_runs_loop acc rs = Inr acc'"
  then show "acc' = acc" by (simp add: make_fake_runs_loop_cases split: if_splits)
next
  show "make_fake_runs data self = (Inr (), self\<lparr>runs := []\<rparr>)
        \<or> (\<exists>e. make_fake_runs data self = (Inl e, self))"
    by (rule make_fake_runs_cases)
next
  assume "\<forall>r \<in> set (rankings (xcpcRankings rk)). teamInfo_teamFid (teamInfo r) \<noteq> None"
  then show "make_fake_runs (RankPayload rk) self = (Inr (), self\<lparr>runs := []\<rparr>)"
    by (simp add: make_fake_runs_def make_fake_runs_loop_cases)
next
  assume "parse abc ts rmt False (w, self) = (Inr (), w', self')"
  from parse_False_runs [OF this] show "runs self' = []" by simp
next
  show "runs (snd (snd (parse abc ts rmt False (w, PTA_init c cid)))) = []"
    by (rule parse_False_fresh)
qed

text \<open>
  On the example remote, with a contest whose class defines the balloon method and a
  stale submission in \<open>runs\<close>: the run returns after the two snapshot requests and
  the stored sequence is empty.
\<close>

theorem make_fake_runs_installs_no_submission_witness:
  "(\<exists>w' self'.
      parse appending_balloon_color iso_example example_remote False
        ([], (PTA_init Contest_init ''42'')\<lparr>runs :=
               [\<lparr>run_team_id = ''t0'', run_status = RESULT_UNKNOWN, run_problem_id = 0,
                 run_timestamp = 0, run_submission_id = ''s0''\<rparr>]\<rparr>)
        = (Inr (), w', self')
      \<and> w' = [Get ''https://pintia.cn/api/competitions/42/groups'',
               Get ''https://pintia.cn/api/competitions/42/xcpc-rankings'']
      \<and> runs self' = [])
   \<and> make_fake_runs (RankPayload snapshot_abc) (PTA_init Contest_init ''42'')
       = (Inr (), PTA_init Contest_init ''42'')"
proof -
  let ?self = "(PTA_init Contest_init ''42'')\<lparr>runs :=
               [\<lparr>run_team_id = ''t0'', run_status = RESULT_UNKNOWN, run_problem_id = 0,
                 run_timestamp = 0, run_submission_id = ''s0''\<rparr>]\<rparr>"
  obtain r w' self' where
    p: "parse appending_balloon_color iso_example example_remote False ([], ?self) = (r, w', self')"
    by (cases "parse appending_balloon_color iso_example example_remote False ([], ?self)")
  from p have r: "r = Inr ()"
    and w: "w' = [Get ''https://pintia.cn/api/competitions/42/groups'',
                  Get ''https://pintia.cn/api/competitions/42/xcpc-rankings'']"
    by (auto simp: parse_def fetch_groups_def fetch_rank_def fetch_rank_by_uri_def
          request_url_def example_remote_def PTA_init_def parse_groups_def parse_contest_def parse_teams_def
          make_fake_runs_def make_fake_runs_loop_cases snapshot_abc_def example_ranking_def
          iso_example_def appending_balloon_color_def Let_def
          split: prod.splits sum.splits)
  have tf: "\<forall>r \<in> set (rankings (xcpcRankings snapshot_abc)). teamInfo_teamFid (teamInfo r) \<noteq> None"
    by (simp add: snapshot_abc_def example_ranking_def)
  from make_fake_runs_installs_no_submission
         [where rk = snapshot_abc and abc = appending_balloon_color and ts = iso_example
            and rmt = example_remote and w = "[]" and self = ?self and w' = w'
            and self' = self']
       p r tf
  have "runs self' = []" by blast
  moreover
  from make_fake_runs_installs_no_submission
         [where rk = snapshot_abc and self = "PTA_init Contest_init ''42''"] tf
  have "make_fake_runs (RankPayload snapshot_abc) (PTA_init Contest_init ''42'')
           = (Inr (), (PTA_init Contest_init ''42'')\<lparr>runs := []\<rparr>)"
    by blast
  then have "make_fake_runs (RankPayload snapshot_abc) (PTA_init Contest_init ''42'')
           = (Inr (), PTA_init Contest_init ''42'')"
    by (simp add: PTA_init_def)
  ultimately show ?thesis using p r w by simp
qed

text \<open>
  C3 (corrected). The claim: the i-th problem in iteration order gets the label
  \<open>'A' + i\<close>, and the retained mapping sends its remote id to \<open>i\<close>. On the snapshot
  whose only problem \<open>p1\<close> is labelled \<open>B\<close>, the label recorded is \<open>B\<close>, not \<open>A\<close>; on a
  contest of class \<open>Contest\<close> the call then raises and retains no mapping, and on a
  contest that has the balloon method the retained mapping sends \<open>p1\<close>, at position
  0, to 1.
\<close>

theorem parse_contest_labels_not_positional:
  "problem_id (contest (snd (parse_contest Contest_append_balloon_color iso_example
       (RankPayload snapshot_b) (PTA_init Contest_init ''42'')))) = [''B'']
   \<and> problem_ids (snd (parse_contest Contest_append_balloon_color iso_example
       (RankPayload snapshot_b) (PTA_init Contest_init ''42''))) = []
   \<and> problem_id (contest (snd (parse_contest appending_balloon_color iso_example
       (RankPayload snapshot_b) (PTA_init Contest_init ''42'')))) = [''B'']
   \<and> problem_ids (snd (parse_contest appending_balloon_color iso_example
       (RankPayload snapshot_b) (PTA_init Contest_init ''42''))) = [(''p1'', 1)]"
  by (simp add: parse_contest_def snapshot_b_def iso_example_def PTA_init_def
        Contest_append_balloon_color_def appending_balloon_color_def Contest_init_def Let_def)

text \<open>
  C3 as amended. On a contest object whose \<open>append_balloon_color\<close> returns and leaves
  \<open>problem_id\<close> alone, for every rank snapshot whose two timestamps the helper accepts
  and whose labels are single characters: \<open>_parse_contest\<close> returns, the label it
  records for the i-th problem in iteration order of
  \<open>problemInfoByProblemSetProblemId\<close> is the label that problem's record carries, and
  the mapping it retains sends each remote problem id to \<open>ord(label) - ord('A')\<close>, in
  the same order.
\<close>

theorem parse_contest_labels_from_payload:
  assumes "\<forall>c col. \<exists>c'. abc c col = Inr c' \<and> problem_id c' = problem_id c"
    and "ts (startAt (competitionBasicInfo rk)) = Inr t0"
    and "ts (endAt (competitionBasicInfo rk)) = Inr t1"
    and "\<forall>(p_id, p) \<in> set (problemInfoByProblemSetProblemId (xcpcRankings rk)).
           length (label p) = 1"
    and "distinct (map fst (problemInfoByProblemSetProblemId (xcpcRankings rk)))"
  shows "\<exists>self'. parse_contest abc ts (RankPayload rk) self = (Inr (), self')
           \<and> problem_id (contest self')
               = map (\<lambda>(p_id, p). label p) (problemInfoByProblemSetProblemId (xcpcRankings rk))
           \<and> problem_ids self'
               = map (\<lambda>(p_id, p). (p_id, of_char (hd (label p)) - of_char CHR ''A''))
                   (problemInfoByProblemSetProblemId (xcpcRankings rk))"
proof -
  let ?items = "problemInfoByProblemSetProblemId (xcpcRankings rk)"
  let ?c1 = "(contest self)\<lparr>start_time := t0, end_time := t1, problem_id := [],
                              balloon_color := []\<rparr>"
  from parse_contest_loop_returns [OF assms(1) assms(4), of ?c1 "[]"]
  obtain c' where
    loop: "parse_contest_loop abc ?c1 [] ?items
             = (Inr (foldl (\<lambda>d (p_id, p).
                        dict_set p_id (of_char (hd (label p)) - of_char CHR ''A'') d) [] ?items),
                c')"
    and labels: "problem_id c' = map (\<lambda>(p_id, p). label p) ?items" by auto
  from assms(5)
  have "foldl (\<lambda>d (p_id, p). dict_set p_id (of_char (hd (label p)) - of_char CHR ''A'') d)
          [] ?items
        = map (\<lambda>(p_id, p). (p_id, of_char (hd (label p)) - of_char CHR ''A'')) ?items"
    using dict_set_many_fresh
            [of ?items "[]" "\<lambda>p. of_char (hd (label p)) - of_char CHR ''A''"]
    by simp
  with loop labels assms(2,3) show ?thesis
    by (simp add: parse_contest_def Let_def)
qed

text \<open>
  On the snapshot that lists problem \<open>B\<close> before problem \<open>A\<close>: the labels are recorded
  as listed, and \<open>p1\<close> is sent to 1, \<open>p2\<close> to 0.
\<close>

theorem parse_contest_labels_from_payload_witness:
  "\<exists>self'. parse_contest appending_balloon_color iso_example (RankPayload snapshot_ba)
              (PTA_init Contest_init ''42'') = (Inr (), self')
     \<and> problem_id (contest self') = [''B'', ''A'']
     \<and> problem_ids self' = [(''p1'', 1), (''p2'', 0)]"
proof -
  have 1: "\<forall>c col. \<exists>c'. appending_balloon_color c col = Inr c'
              \<and> problem_id c' = problem_id c"
    by (simp add: appending_balloon_color_def)
  have 2: "iso_example (startAt (competitionBasicInfo snapshot_ba)) = Inr 0"
    and 3: "iso_example (endAt (competitionBasicInfo snapshot_ba)) = Inr 18000"
    by (simp_all add: snapshot_ba_def iso_example_def)
  have 4: "\<forall>(p_id, p) \<in> set (problemInfoByProblemSetProblemId (xcpcRankings snapshot_ba)).
             length (label p) = 1"
    and 5: "distinct (map fst (problemInfoByProblemSetProblemId (xcpcRankings snapshot_ba)))"
    by (simp_all add: snapshot_ba_def)
  from parse_contest_labels_from_payload [OF 1 2 3 4 5, of "PTA_init Contest_init ''42''"]
  show ?thesis by (simp add: snapshot_ba_def)
qed

text \<open>
  C5. When the sweep of the orchestrator returns, there is one list per team, in team
  order, each a list \<open>_fetch_and_parse_team_runs\<close> returned for that team, such that
  the sequence installed in \<open>_runs\<close> is sorted non-decreasingly by timestamp and
  keeps, among the submissions of any one timestamp, the order they have in the
  concatenation of those lists. Batches are consecutive runs of the team list, so the
  concatenation in team order is the concatenation of the batch results in batch
  order.
\<close>

theorem parse_fetch_runs_sorted_stable:
  assumes "parse_fetch_runs ts rmt (w, self) = (Inr (), w', self')"
  shows "\<exists>rss. list_all2 (fetched_for ts rmt self) (map snd (teams self)) rss
           \<and> sorted (map run_timestamp (runs self'))
           \<and> (\<forall>t. filter (\<lambda>r. run_timestamp r = t) (runs self')
                    = filter (\<lambda>r. run_timestamp r = t) (concat rss))
           \<and> length (runs self') = length (concat rss)"
proof -
  obtain r w2 where sweep: "parse_batches ts rmt self (map snd (teams self)) 0 [] w = (r, w2)"
    by (cases "parse_batches ts rmt self (map snd (teams self)) 0 [] w")
  from assms sweep obtain all_runs where r: "r = Inr all_runs"
    by (cases r) (auto simp: parse_fetch_runs_def)
  from assms sweep r have installed: "runs self' = sort_key run_timestamp all_runs"
    by (auto simp: parse_fetch_runs_def)
  from parse_batches_returns [OF sweep [unfolded r], of 0] obtain rss where
    rel: "list_all2 (fetched_for ts rmt self) (map snd (teams self)) rss"
    and all: "all_runs = concat rss" by auto
  have "sorted (map run_timestamp (runs self'))"
    unfolding installed by (rule sorted_sort_key)
  moreover have "\<forall>t. filter (\<lambda>r. run_timestamp r = t) (runs self')
                    = filter (\<lambda>r. run_timestamp r = t) (concat rss)"
    unfolding installed all by (simp add: sort_key_stable)
  moreover have "length (runs self') = length (concat rss)"
    unfolding installed all by simp
  ultimately show ?thesis using rel by blast
qed

text \<open>
  On the example remote: \<open>t1\<close> submitted \<open>s1\<close> (at 60) and \<open>s2\<close> (at 18000), \<open>t2\<close>
  submitted \<open>s3\<close> (at 60) and \<open>s4\<close> (at 0). The installed order is \<open>s4\<close>, \<open>s1\<close>,
  \<open>s3\<close>, \<open>s2\<close>: \<open>s1\<close> stays before \<open>s3\<close>.
\<close>

theorem parse_fetch_runs_sorted_stable_witness:
  "\<exists>w' self'. parse_fetch_runs iso_example example_remote ([], example_parsed) = (Inr (), w', self')
     \<and> map run_submission_id (runs self') = [''s4'', ''s1'', ''s3'', ''s2'']
     \<and> map run_timestamp (runs self') = [0, 60, 60, 18000]
     \<and> sorted (map run_timestamp (runs self'))"
proof -
  obtain r w' self' where
    p: "parse_fetch_runs iso_example example_remote ([], example_parsed) = (r, w', self')"
    by (cases "parse_fetch_runs iso_example example_remote ([], example_parsed)")
  from p have r: "r = Inr ()"
    and ids: "map run_submission_id (runs self') = [''s4'', ''s1'', ''s3'', ''s2'']"
    and stamps: "map run_timestamp (runs self') = [0, 60, 60, 18000]"
    by (auto simp: parse_fetch_runs_def example_parsed_def PTA_init_def make_team_def
          example_ranking_def batch_size_def parse_batches.simps
          process_team_runs_batch_def fetch_and_parse_team_runs_def retry_range
          fetch_team_submissions_def fetch_rank_by_uri_def request_url_def
          example_remote_def parse_team_runs_def example_submission_def iso_example_def
          parse_status_def Let_def)
  from parse_fetch_runs_sorted_stable [OF p [unfolded r]]
  have "sorted (map run_timestamp (runs self'))" by blast
  moreover from p r
  have "parse_fetch_runs iso_example example_remote ([], example_parsed) = (Inr (), w', self')"
    by simp
  ultimately show ?thesis using ids stamps by (intro exI conjI)
qed

text \<open>
  C6. With \<open>batch_size = 100\<close>, the batches of a team list of length \<open>N\<close> are
  \<open>ceil(N / 100)\<close> consecutive pieces that concatenate to the list, each of 100 teams
  except a last one of between 1 and 100; and a sweep of the orchestrator that
  returns has done, batch after batch in this order, what \<open>batch_events\<close> lists: the
  pause of 1 before every batch but the first, one GET per team of the batch in team
  order, and the progress line. For 250 teams the batches have 100, 100 and 50 teams.
\<close>

theorem parse_fetch_runs_batches:
  "batch_size = 100
   \<and> length (batches tms) = (length tms + batch_size - 1) div batch_size
   \<and> concat (batches tms) = tms
   \<and> (\<forall>k < length (batches tms).
         length (batches tms ! k)
           = (if Suc k < length (batches tms) then batch_size
              else length tms - k * batch_size)
         \<and> 0 < length (batches tms ! k) \<and> length (batches tms ! k) \<le> batch_size)
   \<and> (tms = map snd (teams self)
        \<and> parse_fetch_runs ts rmt (w, self) = (Inr (), w', self')
       \<longrightarrow> w' = w @ concat (map (\<lambda>k. batch_events self k (batches tms ! k))
                                [0..<length (batches tms)]))
   \<and> (length tms = 250 \<longrightarrow> map length (batches tms) = [100, 100, 50])"
proof (intro conjI impI allI)
  show "batch_size = 100" by (simp add: batch_size_def)
next
  show "length (batches tms) = (length tms + batch_size - 1) div batch_size"
    by (rule length_batches)
next
  show "concat (batches tms) = tms" by (rule concat_batches)
next
  fix k assume k: "k < length (batches tms)"
  from length_nth_batches [OF k]
  show "length (batches tms ! k)
          = (if Suc k < length (batches tms) then batch_size
             else length tms - k * batch_size)"
    and "0 < length (batches tms ! k)" and "length (batches tms ! k) \<le> batch_size"
    by blast+
next
  assume a: "tms = map snd (teams self)
        \<and> parse_fetch_runs ts rmt (w, self) = (Inr (), w', self')"
  obtain r w2 where sweep: "parse_batches ts rmt self tms 0 [] w = (r, w2)"
    by (cases "parse_batches ts rmt self tms 0 [] w")
  from a sweep obtain all_runs where r: "r = Inr all_runs"
    by (cases r) (auto simp: parse_fetch_runs_def)
  from a sweep r have "w' = w2" by (auto simp: parse_fetch_runs_def)
  with parse_batches_returns [OF sweep [unfolded r], of 0]
  have "w' = w @ concat (map (\<lambda>j. batch_events self j
                                (take batch_size (drop (j * batch_size) tms)))
                           [0..<(length tms + batch_size - 1) div batch_size])"
    by simp
  moreover
  have "map (\<lambda>k. batch_events self k (batches tms ! k)) [0..<length (batches tms)]
        = map (\<lambda>j. batch_events self j (take batch_size (drop (j * batch_size) tms)))
            [0..<(length tms + batch_size - 1) div batch_size]"
    by (rule map_cong) (simp_all add: length_batches nth_batches)
  ultimately
  show "w' = w @ concat (map (\<lambda>k. batch_events self k (batches tms ! k))
                           [0..<length (batches tms)])"
    by simp
next
  assume "length tms = 250"
  then show "map length (batches tms) = [100, 100, 50]"
    by (simp add: batches_def batch_size_def upt_rec)
qed

text \<open>
  The scenario of the specification, 250 teams on a remote that answers every
  request: the sweep returns, and its trace is the 100 requests of the first batch,
  then twice a pause followed by the requests of the next batch, three batches in all.
\<close>

theorem parse_fetch_runs_batches_witness:
  "\<exists>w' self'.
      parse_fetch_runs iso_example quiet_remote ([], many_teams 250) = (Inr (), w', self')
      \<and> w' = map (\<lambda>t. Get (request_url (many_teams 250)
                         (''xcpc-rankings-team-submissions?team_fid='' @ team_id t)))
                 (map numbered_team [0..<100])
               @ [LogInfo 100, Sleep 1]
               @ map (\<lambda>t. Get (request_url (many_teams 250)
                         (''xcpc-rankings-team-submissions?team_fid='' @ team_id t)))
                   (map numbered_team [100..<200])
               @ [LogInfo 200, Sleep 1]
               @ map (\<lambda>t. Get (request_url (many_teams 250)
                         (''xcpc-rankings-team-submissions?team_fid='' @ team_id t)))
                   (map numbered_team [200..<250])
               @ [LogInfo 250]
      \<and> map length (batches (map numbered_team [0..<250])) = [100, 100, 50]"
proof -
  let ?tms = "map numbered_team [0..<250]"
  have tms: "map snd (teams (many_teams 250)) = ?tms"
    by (simp add: many_teams_def o_def del: upt_rec_numeral)
  have "\<forall>t \<in> set ?tms. \<forall>w. \<exists>rs w1.
          fetch_and_parse_team_runs iso_example quiet_remote (many_teams 250) (team_id t) w
            = (Inr (Some rs), w1)"
    by (simp add: fetch_and_parse_team_runs_def retry_range fetch_team_submissions_def
          fetch_rank_by_uri_def quiet_remote_def parse_team_runs_def Let_def
          del: upt_rec_numeral)
  from parse_batches_succeeds [OF this, of 0 "[]" "[]"] obtain all_runs w' where
    "parse_batches iso_example quiet_remote (many_teams 250) ?tms 0 [] [] = (Inr all_runs, w')"
    by blast
  then have p: "parse_fetch_runs iso_example quiet_remote ([], many_teams 250)
                  = (Inr (), w', (many_teams 250)\<lparr>runs := sort_key run_timestamp all_runs\<rparr>)"
    by (simp add: parse_fetch_runs_def tms del: upt_rec_numeral)
  have len: "length ?tms = 250" by (simp del: upt_rec_numeral)
  note inst = parse_fetch_runs_batches
         [where tms = ?tms and self = "many_teams 250" and ts = iso_example
            and rmt = quiet_remote and w = "[]" and w' = w'
            and self' = "(many_teams 250)\<lparr>runs := sort_key run_timestamp all_runs\<rparr>"]
  from inst have "?tms = map snd (teams (many_teams 250))
        \<and> parse_fetch_runs iso_example quiet_remote ([], many_teams 250)
            = (Inr (), w', (many_teams 250)\<lparr>runs := sort_key run_timestamp all_runs\<rparr>)
       \<longrightarrow> w' = [] @ concat (map (\<lambda>k. batch_events (many_teams 250) k (batches ?tms ! k))
                                [0..<length (batches ?tms)])"
    by (elim conjE)
  moreover
  have "?tms = map snd (teams (many_teams 250))
        \<and> parse_fetch_runs iso_example quiet_remote ([], many_teams 250)
            = (Inr (), w', (many_teams 250)\<lparr>runs := sort_key run_timestamp all_runs\<rparr>)"
    using tms [symmetric] p by (rule conjI)
  ultimately
  have trace: "w' = [] @ concat (map (\<lambda>k. batch_events (many_teams 250) k (batches ?tms ! k))
                                   [0..<length (batches ?tms)])"
    by (rule mp)
  from inst have "length ?tms = 250 \<longrightarrow> map length (batches ?tms) = [100, 100, 50]"
    by (elim conjE)
  from this len have sizes: "map length (batches ?tms) = [100, 100, 50]" by (rule mp)
  have piece: "\<And>a m. a + m \<le> 250 \<Longrightarrow>
      take m (drop a ?tms) = map numbered_team [a..<a + m]"
    by (simp add: take_map drop_map take_upt del: upt_rec_numeral)
  have n: "(length ?tms + batch_size - 1) div batch_size = 3"
    by (simp add: batch_size_def del: upt_rec_numeral)
  have idx: "[0..<3] = [0, 1, 2::nat]" by (simp add: upt_rec)
  have b0: "take 100 (drop 0 ?tms) = map numbered_team [0..<100]"
    using piece [of 0 100] by (simp del: upt_rec_numeral)
  have b1: "take 100 (drop 100 ?tms) = map numbered_team [100..<200]"
    using piece [of 100 100] by (simp del: upt_rec_numeral)
  have b2: "take 100 (drop 200 ?tms) = map numbered_team [200..<250]"
    using piece [of 200 50] by (simp add: take_map drop_map del: upt_rec_numeral)
  have b: "batches ?tms
             = [map numbered_team [0..<100], map numbered_team [100..<200],
                map numbered_team [200..<250]]"
    unfolding batches_def n idx using b0 b1 b2
    by (simp add: batch_size_def del: upt_rec_numeral)
  have len_b: "[0..<length (batches ?tms)] = [0, 1, 2]"
    unfolding b using idx by (simp del: upt_rec_numeral)
  have "w' = batch_events (many_teams 250) 0 (map numbered_team [0..<100])
               @ batch_events (many_teams 250) 1 (map numbered_team [100..<200])
               @ batch_events (many_teams 250) 2 (map numbered_team [200..<250])"
    unfolding trace len_b b by (simp add: numeral_2_eq_2 del: upt_rec_numeral)
  then have "w' = map (\<lambda>t. Get (request_url (many_teams 250)
                         (''xcpc-rankings-team-submissions?team_fid='' @ team_id t)))
                 (map numbered_team [0..<100])
               @ [LogInfo 100, Sleep 1]
               @ map (\<lambda>t. Get (request_url (many_teams 250)
                         (''xcpc-rankings-team-submissions?team_fid='' @ team_id t)))
                   (map numbered_team [100..<200])
               @ [LogInfo 200, Sleep 1]
               @ map (\<lambda>t. Get (request_url (many_teams 250)
                         (''xcpc-rankings-team-submissions?team_fid='' @ team_id t)))
                   (map numbered_team [200..<250])
               @ [LogInfo 250]"
    by (simp add: batch_events_def batch_size_def del: upt_rec_numeral)
  with p sizes show ?thesis by (intro exI conjI)
qed

end
